theory Spec2Isabelle
  imports Complex_Main
begin

section \<open>The snap list screen of subiquity (\<^verbatim>\<open>subiquity/ui/views/snaplist.py\<close>)\<close>

text \<open>
  A shallow embedding of the view code: Python integers are \<open>int\<close>, the floats that
  appear as intermediate values of true division (\<^verbatim>\<open>/\<close>) are exact rationals, a
  \<^verbatim>\<open>dict\<close> is a map, a raised exception is the \<open>Inl\<close> of a sum, and the fields
  a method mutates are passed in and returned.
\<close>

subsection \<open>Python numbers\<close>

text \<open>
  \<^verbatim>\<open>int(x)\<close> on a float truncates towards zero.
\<close>

definition py_int :: "rat \<Rightarrow> int" where
  "py_int x = (if x < 0 then \<lceil>x\<rceil> else \<lfloor>x\<rfloor>)"

subsection \<open>\<^verbatim>\<open>SnapInfoView.render\<close>: dividing the rows between description and channels\<close>

text \<open>
  Lines 223--234 of \<^verbatim>\<open>render\<close>. The three inputs are the local variables
  \<^verbatim>\<open>rows_available\<close>, \<^verbatim>\<open>rows_wanted_description\<close> and
  \<^verbatim>\<open>rows_wanted_channels\<close>; the result is the pair
  \<^verbatim>\<open>(description_rows, channel_rows)\<close>.
  \<^verbatim>\<open>
        if rows_wanted_channels + rows_wanted_description <= rows_available:
            description_rows = rows_wanted_description
            channel_rows = rows_wanted_channels
        else:
            if rows_wanted_description < 2*rows_available/3:
                description_rows = rows_wanted_description
                channel_rows = rows_available - description_rows
            else:
                channel_rows = max(
                    min(rows_wanted_channels, int(rows_available/3)), 3)
                description_rows = rows_available - channel_rows
  \<close>
\<close>

definition render_rows :: "int \<Rightarrow> int \<Rightarrow> int \<Rightarrow> int \<times> int" where
  "render_rows rows_available rows_wanted_description rows_wanted_channels =
     (if rows_wanted_channels + rows_wanted_description \<le> rows_available then
        (rows_wanted_description, rows_wanted_channels)
      else if (of_int rows_wanted_description :: rat) < of_int (2 * rows_available) / 3 then
        (rows_wanted_description, rows_available - rows_wanted_description)
      else
        (let channel_rows =
               max (min rows_wanted_channels (py_int (of_int rows_available / 3))) 3
         in (rows_available - channel_rows, channel_rows)))"

text \<open>
  The algorithm as the specification words it (section 4.1), with the same argument
  order as its \<^verbatim>\<open>split(availableRows, wantedA, wantedB)\<close>.
\<close>

definition split_spec :: "int \<Rightarrow> int \<Rightarrow> int \<Rightarrow> int \<times> int" where
  "split_spec availableRows wantedA wantedB =
     (if wantedA + wantedB \<le> availableRows then (wantedA, wantedB)
      else if (of_int wantedA :: rat) < (2 / 3) * of_int availableRows then
        (wantedA, availableRows - wantedA)
      else
        (let rowsB = max (min wantedB \<lfloor>(of_int availableRows :: rat) / 3\<rfloor>) 3
         in (availableRows - rowsB, rowsB)))"

subsection \<open>\<^verbatim>\<open>format_datetime\<close>\<close>

text \<open>
  \<^verbatim>\<open>datetime.timedelta\<close>, as Python normalises it: \<open>0 \<le> seconds < 86400\<close> and
  \<open>0 \<le> microseconds < 10^6\<close>; only \<open>days\<close> carries the sign.
\<close>

record timedelta =
  days :: int
  seconds :: int
  microseconds :: int

definition normalized :: "timedelta \<Rightarrow> bool" where
  "normalized delta =
     (0 \<le> seconds delta \<and> seconds delta < 86400
      \<and> 0 \<le> microseconds delta \<and> microseconds delta < 1000000)"

text \<open>
  \<^verbatim>\<open>timedelta.total_seconds()\<close> is
  \<^verbatim>\<open>((days * 86400 + seconds) * 10**6 + microseconds) / 10**6\<close>.
\<close>

definition total_seconds :: "timedelta \<Rightarrow> rat" where
  "total_seconds delta =
     of_int ((days delta * 86400 + seconds delta) * 1000000 + microseconds delta) / 1000000"

text \<open>The whole seconds of a difference, its microseconds left out.\<close>

definition whole_seconds :: "timedelta \<Rightarrow> int" where
  "whole_seconds delta = days delta * 86400 + seconds delta"

text \<open>\<^verbatim>\<open>str(n)\<close> for an integer, in decimal.\<close>

definition digit_char :: "nat \<Rightarrow> char" where
  "digit_char n = ''0123456789'' ! n"

fun str_nat :: "nat \<Rightarrow> string" where
  "str_nat n = (if n < 10 then [digit_char n] else str_nat (n div 10) @ [digit_char (n mod 10)])"

declare str_nat.simps [simp del]

definition py_str :: "int \<Rightarrow> string" where
  "py_str i = (if i < 0 then CHR ''-'' # str_nat (nat (- i)) else str_nat (nat i))"

text \<open>
  The replacement field \<^verbatim>\<open>{amount:2}\<close> of \<^verbatim>\<open>str.format\<close>: an integer in a
  field of minimum width 2, right-aligned (the default for numbers) and padded with
  spaces.
\<close>

definition format_width2 :: "int \<Rightarrow> string" where
  "format_width2 amount = replicate (2 - length (py_str amount)) CHR '' '' @ py_str amount"

text \<open>\<^verbatim>\<open>"{amount:2} {unit} ago".format(amount=amount, unit=unit)\<close>\<close>

definition format_ago :: "int \<Rightarrow> string \<Rightarrow> string" where
  "format_ago amount unit = format_width2 amount @ '' '' @ unit @ '' ago''"

text \<open>
  \<^verbatim>\<open>format_datetime(d)\<close>. The function reads the clock and subtracts; the model takes
  the difference \<^verbatim>\<open>delta = datetime.datetime.now() - d\<close> and the text of
  \<^verbatim>\<open>str(d.date())\<close> as its arguments. The translation function \<^verbatim>\<open>_\<close> is the
  identity (no message catalogue).
  \<^verbatim>\<open>
    if delta.total_seconds() < 60:
        return _("just now")
    elif delta.total_seconds() < 60*60:
        amount = int(delta.total_seconds()/60)
        if amount == 1: unit = _("minute")
        else: unit = _("minutes")
    elif delta.total_seconds() < 60*60*24:
        amount = int(delta.total_seconds()/(60*60))
        if amount == 1: unit = _("hour")
        else: unit = _("hours")
    elif delta.days < 30:
        amount = delta.days
        if amount == 1: unit = _("day")
        else: unit = _("days")
    else:
        return str(d.date())
    return _("{amount:2} {unit} ago").format(amount=amount, unit=unit)
  \<close>
\<close>

definition format_datetime :: "timedelta \<Rightarrow> string \<Rightarrow> string" where
  "format_datetime delta date_str =
     (if total_seconds delta < 60 then ''just now''
      else if total_seconds delta < 60 * 60 then
        (let amount = py_int (total_seconds delta / 60)
         in format_ago amount (if amount = 1 then ''minute'' else ''minutes''))
      else if total_seconds delta < 60 * 60 * 24 then
        (let amount = py_int (total_seconds delta / (60 * 60))
         in format_ago amount (if amount = 1 then ''hour'' else ''hours''))
      else if days delta < 30 then
        (let amount = days delta
         in format_ago amount (if amount = 1 then ''day'' else ''days''))
      else date_str)"

text \<open>
  The humanised time of the specification (section 4.3), over the whole seconds \<open>s\<close>
  that have passed, with the amount written in a field of width 2 as the code writes it.
\<close>

definition humanized_spec :: "int \<Rightarrow> string \<Rightarrow> string" where
  "humanized_spec s date_str =
     (if s < 60 then ''just now''
      else if s < 3600 then
        format_width2 (s div 60) @ (if s div 60 = 1 then '' minute ago'' else '' minutes ago'')
      else if s < 86400 then
        format_width2 (s div 3600) @ (if s div 3600 = 1 then '' hour ago'' else '' hours ago'')
      else if s div 86400 < 30 then
        format_width2 (s div 86400) @ (if s div 86400 = 1 then '' day ago'' else '' days ago'')
      else date_str)"

text \<open>A time difference of \<open>s\<close> whole seconds, as \<^verbatim>\<open>timedelta(seconds=s)\<close> builds it.\<close>

definition timedelta_of_seconds :: "int \<Rightarrow> timedelta" where
  "timedelta_of_seconds s = \<lparr>days = s div 86400, seconds = s mod 86400, microseconds = 0\<rparr>"

subsection \<open>Exceptions\<close>

text \<open>The exceptions the modelled code can raise; a raise is the \<open>Inl\<close> of a result.\<close>

datatype py_error = UnboundLocalError | YAMLError | AttributeError | TypeError | KeyError

subsection \<open>The seed manifest: \<^verbatim>\<open>get_seed_yaml\<close> and \<^verbatim>\<open>get_preinstalled_snaps\<close>\<close>

text \<open>
  The objects \<^verbatim>\<open>yaml.load\<close> returns: \<^verbatim>\<open>None\<close>, booleans, integers, strings,
  lists and dicts (a dict as its items, keys distinct, looked up with \<open>map_of\<close>).
  Floats and dates are left out.
\<close>

datatype yaml =
    YNull
  | YBool bool
  | YInt int
  | YStr string
  | YList "yaml list"
  | YDict "(yaml \<times> yaml) list"

text \<open>
  What the view reads of its controller: the values of
  \<^verbatim>\<open>base_model.installpath.sources\<close>, the option \<^verbatim>\<open>opts.dry_run\<close>, the files
  that \<^verbatim>\<open>open\<close> finds (a path with no file raises \<^verbatim>\<open>FileNotFoundError\<close>), and
  the parser \<^verbatim>\<open>yaml.load\<close>, which returns an object or raises.
\<close>

record Controller =
  sources :: "string list"
  dry_run :: bool
  files :: "string \<rightharpoonup> string"
  yaml_load :: "string \<Rightarrow> py_error + yaml"

definition startswith :: "string \<Rightarrow> string \<Rightarrow> bool" where
  "startswith s prefix = (take (length prefix) s = prefix)"

text \<open>\<^verbatim>\<open>os.path.join(a, b)\<close> of \<^verbatim>\<open>posixpath\<close>, for two components.\<close>

definition path_join :: "string \<Rightarrow> string \<Rightarrow> string" where
  "path_join a b =
     (if startswith b ''/'' then b
      else if a = [] \<or> last a = CHR ''/'' then a @ b
      else a @ ''/'' @ b)"

text \<open>The text \<^verbatim>\<open>get_seed_yaml\<close> returns in a dry run.\<close>

definition dry_run_seed :: string where
  "dry_run_seed =
     concat (map (\<lambda>l. l @ [CHR 0x0A])
       [''snaps:'',
        ''  -'',
        ''    name: core'',
        ''    channel: stable'',
        ''    file: core_4486.snap'',
        ''  -'',
        ''    name: lxd'',
        ''    channel: stable/ubuntu-18.04'',
        ''    file: lxd_59.snap''])"

text \<open>
  \<^verbatim>\<open>
    def get_seed_yaml(self):
        sources = list(self.controller.base_model.installpath.sources.values())
        if len(sources) != 1 or not sources[0].startswith('cp://'):
            log.warning("cannot parse install sources %r", sources)
        else:
            source = sources[0][5:]
        if self.controller.opts.dry_run:
            return '''snaps: ...'''
        else:
            seed_location = os.path.join(
                source, 'var/lib/snapd/seed/seed.yaml')
            try:
                fp = open(seed_location, encoding='utf-8', errors='replace')
            except FileNotFoundError:
                log.exception("could not find source at %r", seed_location)
            with fp:
                content = fp.read()
            return content
  \<close>
  The local variable \<^verbatim>\<open>source\<close> is bound only in the \<^verbatim>\<open>else\<close> branch, and
  \<^verbatim>\<open>fp\<close> only when \<^verbatim>\<open>open\<close> succeeds: reading either while unbound raises
  \<^verbatim>\<open>UnboundLocalError\<close>. The handler of \<^verbatim>\<open>FileNotFoundError\<close> logs and falls
  through to \<^verbatim>\<open>with fp\<close>.
\<close>

definition get_seed_yaml :: "Controller \<Rightarrow> py_error + string" where
  "get_seed_yaml controller =
     (let source =
            (case sources controller of
               [s] \<Rightarrow> if startswith s ''cp://'' then Some (drop 5 s) else None
             | _ \<Rightarrow> None)
      in if dry_run controller then Inr dry_run_seed
         else
           (case source of
              None \<Rightarrow> Inl UnboundLocalError
            | Some src \<Rightarrow>
                (let seed_location = path_join src ''var/lib/snapd/seed/seed.yaml''
                 in case files controller seed_location of
                      None \<Rightarrow> Inl UnboundLocalError
                    | Some content \<Rightarrow> Inr content)))"

text \<open>Truth value and hashability of a loaded object.\<close>

fun truthy :: "yaml \<Rightarrow> bool" where
  "truthy YNull = False"
| "truthy (YBool b) = b"
| "truthy (YInt i) = (i \<noteq> 0)"
| "truthy (YStr s) = (s \<noteq> [])"
| "truthy (YList xs) = (xs \<noteq> [])"
| "truthy (YDict kvs) = (kvs \<noteq> [])"

fun hashable :: "yaml \<Rightarrow> bool" where
  "hashable (YList xs) = False"
| "hashable (YDict kvs) = False"
| "hashable y = True"

text \<open>\<^verbatim>\<open>obj.get(key, default)\<close>: only a dict has the method.\<close>

definition py_get :: "yaml \<Rightarrow> yaml \<Rightarrow> yaml \<Rightarrow> py_error + yaml" where
  "py_get obj key dflt =
     (case obj of
        YDict kvs \<Rightarrow> Inr (case map_of kvs key of Some v \<Rightarrow> v | None \<Rightarrow> dflt)
      | _ \<Rightarrow> Inl AttributeError)"

text \<open>
  The elements a \<^verbatim>\<open>for\<close> loop visits: those of a list, the keys of a dict, the
  characters of a string; the other objects are not iterable.
\<close>

definition py_iter :: "yaml \<Rightarrow> py_error + yaml list" where
  "py_iter obj =
     (case obj of
        YList xs \<Rightarrow> Inr xs
      | YDict kvs \<Rightarrow> Inr (map fst kvs)
      | YStr s \<Rightarrow> Inr (map (\<lambda>c. YStr [c]) s)
      | _ \<Rightarrow> Inl TypeError)"

text \<open>
  The loop of \<^verbatim>\<open>get_preinstalled_snaps\<close> over the entries that are left, with the
  set \<^verbatim>\<open>names\<close> built so far:
  \<^verbatim>\<open>
        for snap in seed.get('snaps', []):
            name = snap.get('name')
            if name:
                names.add(name)
  \<close>
\<close>

fun add_names :: "yaml list \<Rightarrow> yaml set \<Rightarrow> py_error + yaml set" where
  "add_names [] names = Inr names"
| "add_names (snap # rest) names =
     (case py_get snap (YStr ''name'') YNull of
        Inl e \<Rightarrow> Inl e
      | Inr nm \<Rightarrow>
          if truthy nm then
            (if hashable nm then add_names rest (insert nm names) else Inl TypeError)
          else add_names rest names)"

text \<open>
  \<^verbatim>\<open>
    def get_preinstalled_snaps(self):
        try:
            seed = yaml.load(self.get_seed_yaml())
        except yaml.YAMLError:
            log.debug("failed to parse seed.yaml")
            return set()
        names = set()
        for snap in seed.get('snaps', []): ...
        return names
  \<close>
  Only \<^verbatim>\<open>yaml.YAMLError\<close> is caught; any other exception of \<^verbatim>\<open>get_seed_yaml\<close>
  or of the parser leaves the method.
\<close>

definition get_preinstalled_snaps :: "Controller \<Rightarrow> py_error + yaml set" where
  "get_preinstalled_snaps controller =
     (case get_seed_yaml controller of
        Inl e \<Rightarrow> (if e = YAMLError then Inr {} else Inl e)
      | Inr content \<Rightarrow>
          (case yaml_load controller content of
             Inl e \<Rightarrow> (if e = YAMLError then Inr {} else Inl e)
           | Inr seed \<Rightarrow>
               (case py_get seed (YStr ''snaps'') (YList []) of
                  Inl e \<Rightarrow> Inl e
                | Inr snaps \<Rightarrow>
                    (case py_iter snaps of
                       Inl e \<Rightarrow> Inl e
                     | Inr xs \<Rightarrow> add_names xs {}))))"

subsection \<open>Snaps, selections and the widgets of the view\<close>

text \<open>
  The fields of the model objects that the view code reads
  (\<^verbatim>\<open>subiquity.models.snaplist\<close>).
\<close>

record ChannelSnapInfo =
  channel_name :: string
  csi_confinement :: string

record Snap =
  name :: string
  summary :: string
  publisher :: string
  verified :: bool
  confinement :: string
  channels :: "ChannelSnapInfo list"

record SnapSelection =
  channel :: string
  is_classic :: bool

text \<open>
  A \<^verbatim>\<open>SnapCheckBox\<close>: its snap and the state of the check box (\<open>False\<close> when
  built). A row of the table shows the box with the publisher and the summary.
\<close>

record SnapCheckBox =
  box_snap :: Snap
  box_state :: bool

record TableRow =
  row_box :: string
  row_publisher :: string
  row_verified :: bool
  row_summary :: string

text \<open>
  A \<^verbatim>\<open>SnapInfoView\<close>: its snap and the channel that was current when it was
  built.
\<close>

record SnapInfoView =
  siv_snap :: Snap
  siv_cur_channel :: "string option"

text \<open>
  The two dialogs, \<^verbatim>\<open>FetchingInfo\<close> and \<^verbatim>\<open>FetchingFailed\<close>, with their
  \<^verbatim>\<open>closed\<close> flags. A \<^verbatim>\<open>FetchingInfo\<close> owns a spinner.
\<close>

record FetchingInfo =
  fi_snap :: Snap
  fi_closed :: bool

record FetchingFailed =
  ff_snap :: Snap
  ff_closed :: bool

text \<open>
  What the view shows (\<^verbatim>\<open>self._w\<close>): nothing yet, the loading screen with its
  spinner, the retry screen, the main screen with its rows, the detail screen, or a
  dialog laid over another widget.
\<close>

datatype dialog = FetchingInfoDialog string | FetchingFailedDialog string

datatype widget =
    Blank
  | LoadingScreen
  | RetryScreen
  | MainScreen "TableRow list"
  | DetailScreen SnapInfoView
  | Overlay dialog widget

text \<open>
  The calls the view makes on objects outside the file, in the order it makes them:
  a spinner is started or stopped, a dialog is laid over the screen or taken off, the
  header is set.
\<close>

datatype spinner = ListSpinner | InfoSpinner string

datatype effect =
    SpinnerStart spinner
  | SpinnerStop spinner
  | ShowOverlay dialog
  | RemoveOverlay
  | SetHeader string

text \<open>
  The state of a \<^verbatim>\<open>SnapListView\<close>: \<^verbatim>\<open>to_install\<close>, \<^verbatim>\<open>snap_boxes\<close> (empty
  until \<^verbatim>\<open>make_main_screen\<close> binds it), \<^verbatim>\<open>_w\<close>, \<^verbatim>\<open>_main_screen\<close> (unbound
  until \<^verbatim>\<open>make_main_screen\<close>), and the calls made so far.
\<close>

record SnapListView =
  to_install :: "string \<rightharpoonup> SnapSelection"
  snap_boxes :: "string \<rightharpoonup> SnapCheckBox"
  view_w :: widget
  main_screen :: "widget option"
  effects :: "effect list"

text \<open>\<^verbatim>\<open>SnapListView.__init__\<close> before it calls \<^verbatim>\<open>load\<close>.\<close>

definition SnapListView_init :: SnapListView where
  "SnapListView_init =
     \<lparr>to_install = Map.empty, snap_boxes = Map.empty, view_w = Blank,
      main_screen = None, effects = []\<rparr>"

definition emit :: "effect \<Rightarrow> SnapListView \<Rightarrow> SnapListView" where
  "emit e v = v\<lparr>effects := effects v @ [e]\<rparr>"

text \<open>
  Modelled from the spec: \<^verbatim>\<open>BaseView.show_overlay\<close> and
  \<^verbatim>\<open>BaseView.remove_overlay\<close> are in \<^verbatim>\<open>subiquitycore.view\<close>, which is not among
  the sources. A dialog is shown over the current screen; removing it gives back the
  screen under it. The specification does not say what removing does when no dialog is
  shown; the model makes that an error.
\<close>

definition show_overlay :: "dialog \<Rightarrow> SnapListView \<Rightarrow> SnapListView" where
  "show_overlay d v = emit (ShowOverlay d) (v\<lparr>view_w := Overlay d (view_w v)\<rparr>)"

definition remove_overlay :: "SnapListView \<Rightarrow> py_error + SnapListView" where
  "remove_overlay v =
     (case view_w v of
        Overlay d bottom \<Rightarrow> Inr (emit RemoveOverlay (v\<lparr>view_w := bottom\<rparr>))
      | _ \<Rightarrow> Inl AttributeError)"

text \<open>
  Modelled from the spec: \<^verbatim>\<open>Spinner\<close> is in \<^verbatim>\<open>subiquity.ui.spinner\<close>, which is
  not among the sources. Starting and stopping a spinner are events.
\<close>

definition spinner_start :: "spinner \<Rightarrow> SnapListView \<Rightarrow> SnapListView" where
  "spinner_start sp v = emit (SpinnerStart sp) v"

definition spinner_stop :: "spinner \<Rightarrow> SnapListView \<Rightarrow> SnapListView" where
  "spinner_stop sp v = emit (SpinnerStop sp) v"



subsection \<open>\<^verbatim>\<open>FetchingInfo\<close> and \<^verbatim>\<open>FetchingFailed\<close>\<close>

text \<open>
  \<^verbatim>\<open>FetchingInfo.__init__\<close> builds the spinner and starts it.
  \<^verbatim>\<open>
    def close(self, sender=None):
        if self.closed:
            return
        self.closed = True
        self.spinner.stop()
        self.parent.remove_overlay()
  \<close>
\<close>

definition FetchingInfo_init :: "Snap \<Rightarrow> SnapListView \<Rightarrow> FetchingInfo \<times> SnapListView" where
  "FetchingInfo_init snap v =
     (\<lparr>fi_snap = snap, fi_closed = False\<rparr>, spinner_start (InfoSpinner (name snap)) v)"

definition FetchingInfo_close ::
  "FetchingInfo \<Rightarrow> SnapListView \<Rightarrow> py_error + FetchingInfo \<times> SnapListView" where
  "FetchingInfo_close fi v =
     (if fi_closed fi then Inr (fi, v)
      else
        (case remove_overlay (spinner_stop (InfoSpinner (name (fi_snap fi))) v) of
           Inl e \<Rightarrow> Inl e
         | Inr v' \<Rightarrow> Inr (fi\<lparr>fi_closed := True\<rparr>, v')))"

text \<open>
  \<^verbatim>\<open>
    def close(self, sender=None):
        if self.closed:
            return
        self.closed = True
        self.row.parent.remove_overlay()
  \<close>
\<close>

definition FetchingFailed_init :: "Snap \<Rightarrow> FetchingFailed" where
  "FetchingFailed_init snap = \<lparr>ff_snap = snap, ff_closed = False\<rparr>"

definition FetchingFailed_close ::
  "FetchingFailed \<Rightarrow> SnapListView \<Rightarrow> py_error + FetchingFailed \<times> SnapListView" where
  "FetchingFailed_close ff v =
     (if ff_closed ff then Inr (ff, v)
      else
        (case remove_overlay v of
           Inl e \<Rightarrow> Inl e
         | Inr v' \<Rightarrow> Inr (ff\<lparr>ff_closed := True\<rparr>, v')))"

subsection \<open>The selection: \<^verbatim>\<open>SnapCheckBox.state_change\<close> and \<^verbatim>\<open>SnapInfoView.state_change\<close>\<close>

text \<open>
  \<^verbatim>\<open>
    def state_change(self, sender, new_state):
        if new_state:
            self.parent.to_install[self.snap.name] = SnapSelection(
                channel='stable',
                is_classic=self.snap.confinement == "classic")
        else:
            self.parent.to_install.pop(self.snap.name, None)
  \<close>
\<close>

definition default_selection :: "Snap \<Rightarrow> SnapSelection" where
  "default_selection snap =
     \<lparr>channel = ''stable'', is_classic = (confinement snap = ''classic'')\<rparr>"

definition SnapCheckBox_state_change :: "Snap \<Rightarrow> bool \<Rightarrow> SnapListView \<Rightarrow> SnapListView" where
  "SnapCheckBox_state_change snap new_state v =
     (if new_state then v\<lparr>to_install := (to_install v)(name snap \<mapsto> default_selection snap)\<rparr>
      else v\<lparr>to_install := (to_install v)(name snap := None)\<rparr>)"

text \<open>
  \<^verbatim>\<open>self.parent.snap_boxes[n].set_state(state)\<close>. The subscript raises
  \<^verbatim>\<open>KeyError\<close> for a name with no box. \<^verbatim>\<open>CheckBox.set_state\<close> of urwid returns
  at once when the state does not change; otherwise it emits the signal
  \<^verbatim>\<open>change\<close>, to which \<^verbatim>\<open>SnapCheckBox.__init__\<close> has connected
  \<^verbatim>\<open>state_change\<close>, and then stores the state.
\<close>

definition set_state :: "string \<Rightarrow> bool \<Rightarrow> SnapListView \<Rightarrow> py_error + SnapListView" where
  "set_state n st v =
     (case snap_boxes v n of
        None \<Rightarrow> Inl KeyError
      | Some box \<Rightarrow>
          if box_state box = st then Inr v
          else
            (let v1 = SnapCheckBox_state_change (box_snap box) st v
             in Inr (v1\<lparr>snap_boxes := (snap_boxes v1)(n \<mapsto> box\<lparr>box_state := st\<rparr>)\<rparr>)))"

text \<open>
  The user data of the radio button that \<^verbatim>\<open>SnapInfoView.__init__\<close> builds for a
  channel:
  \<^verbatim>\<open>SnapSelection(channel=csi.channel_name, is_classic=csi.confinement == "classic")\<close>.
\<close>

definition radio_selection :: "ChannelSnapInfo \<Rightarrow> SnapSelection" where
  "radio_selection csi =
     \<lparr>channel = channel_name csi, is_classic = (csi_confinement csi = ''classic'')\<rparr>"

definition SnapInfoView_init :: "Snap \<Rightarrow> string option \<Rightarrow> SnapInfoView" where
  "SnapInfoView_init snap cur_channel = \<lparr>siv_snap = snap, siv_cur_channel = cur_channel\<rparr>"

text \<open>
  \<^verbatim>\<open>
    def state_change(self, sender, state, selection):
        if state:
            self.parent.snap_boxes[self.snap.name].set_state(True)
            self.parent.to_install[self.snap.name] = selection
  \<close>
  The state of the view between the two statements is \<open>state_change_checked\<close>.
\<close>

definition state_change_checked :: "SnapInfoView \<Rightarrow> SnapListView \<Rightarrow> py_error + SnapListView" where
  "state_change_checked siv v = set_state (name (siv_snap siv)) True v"

definition SnapInfoView_state_change ::
  "SnapInfoView \<Rightarrow> bool \<Rightarrow> SnapSelection \<Rightarrow> SnapListView \<Rightarrow> py_error + SnapListView" where
  "SnapInfoView_state_change siv st selection v =
     (if st then
        (case state_change_checked siv v of
           Inl e \<Rightarrow> Inl e
         | Inr v1 \<Rightarrow> Inr (v1\<lparr>to_install := (to_install v1)(name (siv_snap siv) \<mapsto> selection)\<rparr>))
      else Inr v)"

text \<open>
  The events of the user that reach the selection: SPACE on the check box of a row
  (\<^verbatim>\<open>CheckBox.toggle_state\<close> sets the opposite state), and a radio button of a detail
  view changing its state, which calls \<^verbatim>\<open>SnapInfoView.state_change\<close> with the new
  state and the button's user data.
\<close>

datatype ui_event =
    ToggleCheckBox string
  | RadioChange SnapInfoView bool SnapSelection

fun ui_step :: "ui_event \<Rightarrow> SnapListView \<Rightarrow> py_error + SnapListView" where
  "ui_step (ToggleCheckBox n) v =
     (case snap_boxes v n of
        None \<Rightarrow> Inl KeyError
      | Some box \<Rightarrow> set_state n (\<not> box_state box) v)"
| "ui_step (RadioChange siv st selection) v = SnapInfoView_state_change siv st selection v"

fun ui_run :: "ui_event list \<Rightarrow> SnapListView \<Rightarrow> py_error + SnapListView" where
  "ui_run [] v = Inr v"
| "ui_run (e # es) v = (case ui_step e v of Inl err \<Rightarrow> Inl err | Inr v' \<Rightarrow> ui_run es v')"

text \<open>
  The invariant of the selection: every box is filed under the name of its snap, only
  snaps with a box have an entry, and a snap has an entry exactly when its box is
  checked.
\<close>

definition selection_inv :: "SnapListView \<Rightarrow> bool" where
  "selection_inv v =
     (\<forall>n. (case snap_boxes v n of
              None \<Rightarrow> to_install v n = None
            | Some box \<Rightarrow> name (box_snap box) = n \<and> (to_install v n \<noteq> None) = box_state box))"

subsection \<open>The screens: \<^verbatim>\<open>make_main_screen\<close>, \<^verbatim>\<open>load\<close> and \<^verbatim>\<open>load_info\<close>\<close>

definition title :: string where
  "title = ''Featured Server Snaps''"

definition offer_retry :: "SnapListView \<Rightarrow> SnapListView" where
  "offer_retry v = v\<lparr>view_w := RetryScreen\<rparr>"

definition show_screen :: "widget \<Rightarrow> SnapListView \<Rightarrow> SnapListView" where
  "show_screen screen v = v\<lparr>view_w := screen\<rparr>"

text \<open>
  \<^verbatim>\<open>
    def show_main_screen(self, sender=None):
        self.controller.ui.set_header(_(self.title))
        self._w = self._main_screen
  \<close>
\<close>

definition show_main_screen :: "SnapListView \<Rightarrow> py_error + SnapListView" where
  "show_main_screen v =
     (case main_screen v of
        None \<Rightarrow> Inl AttributeError
      | Some m \<Rightarrow> Inr ((emit (SetHeader title) v)\<lparr>view_w := m\<rparr>))"

text \<open>
  The loop of \<^verbatim>\<open>make_main_screen\<close> over the snaps that are left, with
  \<^verbatim>\<open>snap_boxes\<close> and \<^verbatim>\<open>body\<close> as built so far:
  \<^verbatim>\<open>
        for snap in snap_list:
            if snap.name in preinstalled:
                continue
            box = self.snap_boxes[snap.name] = SnapCheckBox(self, snap)
            ...
            body.append(AttrMap(TableRow(row), ...))
  \<close>
\<close>

definition make_row :: "Snap \<Rightarrow> TableRow" where
  "make_row snap =
     \<lparr>row_box = name snap, row_publisher = publisher snap, row_verified = verified snap,
      row_summary = summary snap\<rparr>"

fun make_rows ::
  "yaml set \<Rightarrow> Snap list \<Rightarrow> (string \<rightharpoonup> SnapCheckBox) \<Rightarrow> TableRow list \<Rightarrow>
   (string \<rightharpoonup> SnapCheckBox) \<times> TableRow list" where
  "make_rows preinstalled [] boxes body = (boxes, body)"
| "make_rows preinstalled (snap # rest) boxes body =
     (if YStr (name snap) \<in> preinstalled then make_rows preinstalled rest boxes body
      else make_rows preinstalled rest
             (boxes(name snap \<mapsto> \<lparr>box_snap = snap, box_state = False\<rparr>))
             (body @ [make_row snap]))"

definition make_main_screen ::
  "Controller \<Rightarrow> Snap list \<Rightarrow> SnapListView \<Rightarrow> py_error + SnapListView" where
  "make_main_screen controller snap_list v =
     (case get_preinstalled_snaps controller of
        Inl e \<Rightarrow> Inl e
      | Inr preinstalled \<Rightarrow>
          (case make_rows preinstalled snap_list Map.empty [] of
             (boxes, body) \<Rightarrow>
               Inr (v\<lparr>snap_boxes := boxes, main_screen := Some (MainScreen body)\<rparr>)))"

text \<open>
  \<^verbatim>\<open>
    def load(self, sender=None):
        spinner = None
        called = False

        def callback(snap_list):
            nonlocal called
            called = True
            if spinner is not None:
                spinner.stop()
            if len(snap_list) == 0:
                self.offer_retry()
            else:
                self.make_main_screen(snap_list)
                self.show_main_screen()
        self.controller.get_snap_list(callback)
        if called:
            return
        spinner = Spinner(self.controller.loop, style='dots')
        spinner.start()
        self._w = screen([spinner], ...)
  \<close>
  The closure \<^verbatim>\<open>callback\<close> reads \<^verbatim>\<open>spinner\<close> when it runs: \<open>has_spinner\<close> says
  whether \<^verbatim>\<open>load\<close> has bound it by then. The controller either calls the callback
  before \<^verbatim>\<open>get_snap_list\<close> returns (\<open>Some snap_list\<close>) or keeps it for later
  (\<open>None\<close>).
\<close>

definition load_callback ::
  "Controller \<Rightarrow> bool \<Rightarrow> Snap list \<Rightarrow> SnapListView \<Rightarrow> py_error + SnapListView" where
  "load_callback controller has_spinner snap_list v =
     (let v1 = (if has_spinner then spinner_stop ListSpinner v else v)
      in if length snap_list = 0 then Inr (offer_retry v1)
         else
           (case make_main_screen controller snap_list v1 of
              Inl e \<Rightarrow> Inl e
            | Inr v2 \<Rightarrow> show_main_screen v2))"

definition load ::
  "Controller \<Rightarrow> Snap list option \<Rightarrow> SnapListView \<Rightarrow> py_error + SnapListView" where
  "load controller completed v =
     (case completed of
        Some snap_list \<Rightarrow> load_callback controller False snap_list v
      | None \<Rightarrow> Inr ((spinner_start ListSpinner v)\<lparr>view_w := LoadingScreen\<rparr>))"

text \<open>
  \<^verbatim>\<open>
    def load_info(self):
        called = False
        fi = None

        def callback():
            nonlocal called
            called = True
            if fi is not None:
                fi.close()
            if len(self.snap.channels) == 0:  # or other indication of failure
                ff = FetchingFailed(self, self.snap)
                self.parent.show_overlay(ff, width=ff.width)
            else:
                cur_chan = None
                if self.snap.name in self.parent.to_install:
                    cur_chan = self.parent.to_install[self.snap.name].channel
                siv = SnapInfoView(self.parent, self.snap, cur_chan)
                self.parent.controller.ui.set_header(siv.title)
                self.parent.show_screen(screen(siv, ...))
        self.parent.controller.get_snap_info(self.snap, callback)
        if not called:
            fi = FetchingInfo(
                self.parent, self.snap, self.parent.controller.loop)
            self.parent.show_overlay(fi, width=fi.width)
  \<close>
  The controller fills \<^verbatim>\<open>self.snap.channels\<close> in place before it calls the
  callback, and the callback reads the snap when it runs: the snap as it is then is an
  argument of \<open>load_info_callback\<close>, with the dialog \<^verbatim>\<open>fi\<close> as \<^verbatim>\<open>load_info\<close> has
  bound it by then; \<open>close_fetching\<close> is its statement
  \<^verbatim>\<open>if fi is not None: fi.close()\<close>. The result holds the dialogs \<^verbatim>\<open>fi\<close> and \<^verbatim>\<open>ff\<close> next to the
  view. The controller either calls the callback before \<^verbatim>\<open>get_snap_info\<close> returns
  (\<open>Some snap'\<close>, the snap as filled) or keeps it for later (\<open>None\<close>).
\<close>

definition close_fetching ::
  "FetchingInfo option \<Rightarrow> SnapListView \<Rightarrow> py_error + FetchingInfo option \<times> SnapListView" where
  "close_fetching fi v =
     (case fi of
        None \<Rightarrow> Inr (None, v)
      | Some f \<Rightarrow>
          (case FetchingInfo_close f v of
             Inl e \<Rightarrow> Inl e
           | Inr (f', v') \<Rightarrow> Inr (Some f', v')))"

definition load_info_callback ::
  "Snap \<Rightarrow> FetchingInfo option \<Rightarrow> SnapListView \<Rightarrow>
   py_error + FetchingInfo option \<times> FetchingFailed option \<times> SnapListView" where
  "load_info_callback snap fi v =
     (case close_fetching fi v of
        Inl e \<Rightarrow> Inl e
      | Inr (fi', v1) \<Rightarrow>
          if length (channels snap) = 0 then
            Inr (fi', Some (FetchingFailed_init snap),
                 show_overlay (FetchingFailedDialog (name snap)) v1)
          else
            (let cur_chan = (case to_install v1 (name snap) of
                               None \<Rightarrow> None
                             | Some selection \<Rightarrow> Some (channel selection));
                 siv = SnapInfoView_init snap cur_chan
             in Inr (fi', None, show_screen (DetailScreen siv) (emit (SetHeader (name snap)) v1))))"

definition load_info ::
  "Snap \<Rightarrow> Snap option \<Rightarrow> SnapListView \<Rightarrow>
   py_error + FetchingInfo option \<times> FetchingFailed option \<times> SnapListView" where
  "load_info snap completed v =
     (case completed of
        Some snap' \<Rightarrow> load_info_callback snap' None v
      | None \<Rightarrow>
          (case FetchingInfo_init snap v of
             (fi, v1) \<Rightarrow>
               Inr (Some fi, None, show_overlay (FetchingInfoDialog (name snap)) v1)))"

text \<open>
  The button \<^verbatim>\<open>Try again\<close> of \<^verbatim>\<open>FetchingFailed\<close>:
  \<^verbatim>\<open>
    def load(self, sender=None):
        self.close()
        self.row.load_info()
  \<close>
\<close>

definition FetchingFailed_load ::
  "FetchingFailed \<Rightarrow> Snap option \<Rightarrow> SnapListView \<Rightarrow>
   py_error + FetchingInfo option \<times> FetchingFailed option \<times> SnapListView" where
  "FetchingFailed_load ff completed v =
     (case FetchingFailed_close ff v of
        Inl e \<Rightarrow> Inl e
      | Inr (ff', v') \<Rightarrow> load_info (ff_snap ff) completed v')"

subsection \<open>Values for the examples\<close>

definition example_snap :: "string \<Rightarrow> Snap" where
  "example_snap n =
     \<lparr>name = n, summary = ''a snap'', publisher = ''canonical'', verified = True,
      confinement = ''strict'', channels = []\<rparr>"

definition example_seed :: yaml where
  "example_seed =
     YDict [(YStr ''snaps'',
             YList [YDict [(YStr ''name'', YStr ''B''), (YStr ''channel'', YStr ''stable''),
                           (YStr ''file'', YStr ''B_1.snap'')]])]"

definition example_controller :: Controller where
  "example_controller =
     \<lparr>sources = [''cp:///media/filesystem''], dry_run = True, files = Map.empty,
      yaml_load = (\<lambda>content. Inr example_seed)\<rparr>"

definition example_events :: "ui_event list" where
  "example_events =
     [ToggleCheckBox ''A'',
      RadioChange (SnapInfoView_init (example_snap ''C'') None) True
        \<lparr>channel = ''beta'', is_classic = False\<rparr>,
      ToggleCheckBox ''A'']"

text \<open>
  The view with the main screen on, after \<^verbatim>\<open>load\<close> got the three example snaps
  at once.
\<close>

definition example_main_view :: SnapListView where
  "example_main_view =
     (case load example_controller
             (Some [example_snap ''A'', example_snap ''B'', example_snap ''C''])
             SnapListView_init of
        Inr v \<Rightarrow> v
      | Inl e \<Rightarrow> SnapListView_init)"

text \<open>
  The dialog and the view after \<^verbatim>\<open>load_info\<close> on the row of the example snap
  \<open>''A''\<close> returned with the callback still to come, and the view after the button
  \<^verbatim>\<open>Cancel\<close> of the dialog was pressed then.
\<close>

definition example_fetching :: FetchingInfo where
  "example_fetching = \<lparr>fi_snap = example_snap ''A'', fi_closed = False\<rparr>"

definition example_fetching_view :: SnapListView where
  "example_fetching_view =
     example_main_view
       \<lparr>view_w := Overlay (FetchingInfoDialog ''A'') (view_w example_main_view),
        effects := effects example_main_view
                   @ [SpinnerStart (InfoSpinner ''A''), ShowOverlay (FetchingInfoDialog ''A'')]\<rparr>"

definition example_cancelled_view :: SnapListView where
  "example_cancelled_view =
     example_main_view
       \<lparr>effects := effects example_main_view
                   @ [SpinnerStart (InfoSpinner ''A''), ShowOverlay (FetchingInfoDialog ''A''),
                      SpinnerStop (InfoSpinner ''A''), RemoveOverlay]\<rparr>"

definition example_channel :: ChannelSnapInfo where
  "example_channel = \<lparr>channel_name = ''stable'', csi_confinement = ''strict''\<rparr>"

text \<open>A controller whose parser rejects the manifest.\<close>

definition example_broken_controller :: Controller where
  "example_broken_controller =
     \<lparr>sources = [''cp:///media/filesystem''], dry_run = True, files = Map.empty,
      yaml_load = (\<lambda>content. Inl YAMLError)\<rparr>"





section \<open>Properties\<close>

subsection \<open>The row split\<close>

lemma py_int_nonneg: "0 \<le> x \<Longrightarrow> py_int x = \<lfloor>x\<rfloor>"
  by (simp add: py_int_def)

lemma two_thirds_rat: "(of_int (2 * a) :: rat) / 3 = (2 / 3) * of_int a"
  by simp

lemma two_thirds_less: "((of_int x :: rat) < of_int (2 * a) / 3) = (3 * x < 2 * a)"
proof -
  have "((of_int x :: rat) < of_int (2 * a) / 3) = ((of_int x :: rat) * 3 < of_int (2 * a))"
    by (simp add: pos_less_divide_eq)
  also have "\<dots> = ((of_int (x * 3) :: rat) < of_int (2 * a))"
    by simp
  also have "\<dots> = (x * 3 < 2 * a)"
    by (simp only: of_int_less_iff)
  finally show ?thesis by (simp add: mult.commute)
qed

lemma floor_third: "\<lfloor>(of_int a :: rat) / 3\<rfloor> = a div 3"
  using floor_divide_of_int_eq [of a 3, where ?'a = rat] by simp

lemma py_int_third: "0 \<le> a \<Longrightarrow> py_int (of_int a / 3) = a div 3"
  by (simp add: py_int_nonneg floor_third)

text \<open>
  Claim C1. For non-negative inputs the rows computed by \<^verbatim>\<open>render\<close> are those of the
  three-case algorithm of the specification, and the three worked examples evaluate as
  the specification says.
\<close>

theorem render_rows_three_cases:
  "(\<forall>availableRows wantedA wantedB.
      0 \<le> availableRows \<and> 0 \<le> wantedA \<and> 0 \<le> wantedB \<longrightarrow>
      render_rows availableRows wantedA wantedB = split_spec availableRows wantedA wantedB)
   \<and> render_rows 20 5 3 = (5, 3)
   \<and> render_rows 10 3 20 = (3, 7)
   \<and> render_rows 10 9 20 = (7, 3)"
proof -
  have gen: "render_rows a wa wb = split_spec a wa wb" if "0 \<le> a" for a wa wb
  proof -
    from that have "py_int (of_int a / 3) = \<lfloor>(of_int a :: rat) / 3\<rfloor>"
      by (intro py_int_nonneg) simp
    then show ?thesis
      by (simp add: render_rows_def split_spec_def two_thirds_rat add.commute)
  qed
  have e1: "render_rows 20 5 3 = (5, 3)"
    by (simp add: render_rows_def)
  have e2: "render_rows 10 3 20 = (3, 7)"
    by (simp add: render_rows_def)
  have e3: "render_rows 10 9 20 = (7, 3)"
    using py_int_third [of 10] by (simp add: render_rows_def Let_def)
  from gen e1 e2 e3 show ?thesis by blast
qed

theorem render_rows_three_cases_witness:
  "(0::int) \<le> 2 \<and> (0::int) \<le> 2 \<and> (0::int) \<le> 5
   \<and> render_rows 2 2 5 = split_spec 2 2 5 \<and> split_spec 2 2 5 = (-1, 3)"
proof -
  have "render_rows 2 2 5 = split_spec 2 2 5"
    using render_rows_three_cases by simp
  moreover have "split_spec 2 2 5 = (-1, 3)"
    using floor_third [of 2] by (simp add: split_spec_def Let_def)
  ultimately show ?thesis by simp
qed

text \<open>
  Claim C2, as stated, fails twice. When both wants fit, the two panels get what they
  want and the sum of the rows is the sum of the wants, not the available rows:
  20 rows with wants 5 and 3 give 5 and 3. When they do not fit and the description
  wants less than two thirds, the channel list gets the rest, which may be fewer than
  3 rows although 3 rows are available: 3 rows with wants 1 and 5 give 1 and 2.
\<close>

theorem render_rows_sum_counterexample:
  "render_rows 20 5 3 = (5, 3) \<and> (5::int) + 3 \<le> 20 \<and> (5::int) + 3 \<noteq> 20
   \<and> render_rows 3 1 5 = (1, 2) \<and> \<not> (1::int) + 5 \<le> 3 \<and> \<not> (3::int) < 3 \<and> \<not> (3::int) \<le> 2"
  by (simp add: render_rows_def)

text \<open>
  Claim C2, amended. For non-negative inputs: when both wants fit, the rows given are
  the wants, so their sum is the sum of the wants and at most the available rows;
  otherwise the rows given add up to the available rows, and, unless fewer than 3 rows
  are available, the description gets at least 0 rows (no clamp is needed) and the
  channel list at least 2; the channel list gets at least 3 rows when the description
  wants two thirds of the rows or more, and whenever 6 rows or more are available.
\<close>

theorem render_rows_bounds:
  assumes "0 \<le> availableRows" "0 \<le> wantedA" "0 \<le> wantedB"
    and "render_rows availableRows wantedA wantedB = (rowsA, rowsB)"
  shows "(wantedA + wantedB \<le> availableRows \<longrightarrow>
            rowsA + rowsB = wantedA + wantedB \<and> rowsA + rowsB \<le> availableRows)
       \<and> (\<not> wantedA + wantedB \<le> availableRows \<longrightarrow>
            rowsA + rowsB = availableRows
            \<and> (3 \<le> availableRows \<longrightarrow> 0 \<le> rowsA \<and> 2 \<le> rowsB)
            \<and> (\<not> (of_int wantedA :: rat) < of_int (2 * availableRows) / 3 \<longrightarrow> 3 \<le> rowsB)
            \<and> (6 \<le> availableRows \<longrightarrow> 3 \<le> rowsB))"
proof -
  note t = py_int_third [OF assms(1)]
  show ?thesis
    using assms unfolding render_rows_def two_thirds_less t Let_def
    by (auto split: if_splits)
qed

theorem render_rows_bounds_witness:
  "render_rows 10 9 20 = (7, 3) \<and> \<not> (9::int) + 20 \<le> 10 \<and> (7::int) + 3 = 10
   \<and> (3::int) \<le> 10 \<and> (0::int) \<le> 7 \<and> (3::int) \<le> 3 \<and> (6::int) \<le> 10
   \<and> render_rows 20 5 3 = (5, 3) \<and> (5::int) + 3 \<le> 20"
proof -
  have r: "render_rows 10 9 20 = (7, 3)"
    using py_int_third [of 10] by (simp add: render_rows_def Let_def)
  have s: "render_rows 20 5 3 = (5, 3)"
    by (simp add: render_rows_def)
  from render_rows_bounds [OF _ _ _ r] render_rows_bounds [OF _ _ _ s] show ?thesis
    using r s by simp
qed

subsection \<open>Humanised times\<close>

lemma total_seconds_less:
  assumes "normalized delta"
  shows "(total_seconds delta < of_int k) = (whole_seconds delta < k)"
proof -
  let ?s = "whole_seconds delta" and ?m = "microseconds delta"
  have m: "0 \<le> ?m" "?m < 1000000" using assms by (simp_all add: normalized_def)
  have "(total_seconds delta < of_int k) = ((of_int (?s * 1000000 + ?m) :: rat) < of_int k * 1000000)"
    by (simp add: total_seconds_def whole_seconds_def pos_divide_less_eq)
  also have "\<dots> = ((of_int (?s * 1000000 + ?m) :: rat) < of_int (k * 1000000))"
    by simp
  also have "\<dots> = (?s * 1000000 + ?m < k * 1000000)"
    by (simp only: of_int_less_iff)
  also have "\<dots> = (?s < k)"
    using m by auto
  finally show ?thesis .
qed

lemma py_int_total_seconds:
  assumes "normalized delta" "0 \<le> whole_seconds delta" "0 < k"
  shows "py_int (total_seconds delta / of_int k) = whole_seconds delta div k"
proof -
  let ?s = "whole_seconds delta" and ?m = "microseconds delta"
  have m: "0 \<le> ?m" "?m < 1000000" using assms by (simp_all add: normalized_def)
  have n: "0 \<le> ?s * 1000000 + ?m" using assms(2) m by simp
  have eq: "total_seconds delta / of_int k = of_int (?s * 1000000 + ?m) / of_int (1000000 * k)"
    by (simp add: total_seconds_def whole_seconds_def)
  have "0 \<le> total_seconds delta / of_int k"
    unfolding eq using n assms(3) by (intro divide_nonneg_nonneg) simp_all
  then have "py_int (total_seconds delta / of_int k) = \<lfloor>total_seconds delta / of_int k\<rfloor>"
    by (rule py_int_nonneg)
  also have "\<dots> = (?s * 1000000 + ?m) div (1000000 * k)"
    unfolding eq by (rule floor_divide_of_int_eq)
  also have "\<dots> = ((?s * 1000000 + ?m) div 1000000) div k"
    using assms(3) by (simp add: zdiv_zmult2_eq)
  also have "(?s * 1000000 + ?m) div 1000000 = ?s"
    using m by simp
  finally show ?thesis .
qed

lemma days_whole:
  assumes "normalized delta"
  shows "days delta = whole_seconds delta div 86400"
  using assms by (simp add: normalized_def whole_seconds_def)

lemma format_datetime_humanized:
  assumes "normalized delta" "0 \<le> days delta"
  shows "format_datetime delta date_str = humanized_spec (whole_seconds delta) date_str"
proof -
  let ?s = "whole_seconds delta"
  have s0: "0 \<le> ?s" using assms by (simp add: normalized_def whole_seconds_def)
  have l1: "(total_seconds delta < 60) = (?s < 60)"
    using total_seconds_less [OF assms(1), of 60] by simp
  have l2: "(total_seconds delta < 60 * 60) = (?s < 3600)"
    using total_seconds_less [OF assms(1), of 3600] by simp
  have l3: "(total_seconds delta < 60 * 60 * 24) = (?s < 86400)"
    using total_seconds_less [OF assms(1), of 86400] by simp
  have p1: "py_int (total_seconds delta / 60) = ?s div 60"
    using py_int_total_seconds [OF assms(1) s0, of 60] by simp
  have p2: "py_int (total_seconds delta / (60 * 60)) = ?s div 3600"
    using py_int_total_seconds [OF assms(1) s0, of 3600] by simp
  have d: "days delta = ?s div 86400"
    by (rule days_whole [OF assms(1)])
  show ?thesis
    unfolding format_datetime_def humanized_spec_def l1 l2 l3 p1 p2 Let_def format_ago_def
    by (simp add: d)
qed



text \<open>
  Claim C3, as stated, fails on the text: the amount is formatted with \<^verbatim>\<open>{amount:2}\<close>,
  so a one-digit amount comes with a leading space. A difference of 60 seconds gives
  \<open>'' 1 minute ago''\<close>, not \<open>''1 minute ago''\<close>.
\<close>

theorem format_datetime_padding_counterexample:
  "format_datetime (timedelta_of_seconds 60) ''2018-04-26'' = '' 1 minute ago''
   \<and> format_datetime (timedelta_of_seconds 60) ''2018-04-26'' \<noteq> ''1 minute ago''"
  by code_simp

text \<open>
  Claim C3, amended. For a difference in the past, \<^verbatim>\<open>format_datetime\<close> returns
  \<open>''just now''\<close> under 60 seconds, then the whole minutes under an hour, the whole
  hours under a day, the whole days under 30 days and the calendar date after that; the
  unit word is singular exactly when the amount is 1, and the amount is right-aligned
  in a field of two characters. So 59 seconds give \<open>''just now''\<close>, 60 seconds
  \<open>'' 1 minute ago''\<close>, 61 minutes \<open>'' 1 hour ago''\<close>, 25 hours \<open>'' 1 day ago''\<close>,
  31 days the date, and 10 minutes \<open>''10 minutes ago''\<close>.
\<close>

theorem format_datetime_humanized_spec:
  "(\<forall>delta date_str. normalized delta \<and> 0 \<le> days delta \<longrightarrow>
      format_datetime delta date_str = humanized_spec (whole_seconds delta) date_str)
   \<and> format_datetime (timedelta_of_seconds 59) date = ''just now''
   \<and> format_datetime (timedelta_of_seconds 60) date = '' 1 minute ago''
   \<and> format_datetime (timedelta_of_seconds (61 * 60)) date = '' 1 hour ago''
   \<and> format_datetime (timedelta_of_seconds (25 * 3600)) date = '' 1 day ago''
   \<and> format_datetime (timedelta_of_seconds (31 * 86400)) date = date
   \<and> format_datetime (timedelta_of_seconds 600) date = ''10 minutes ago''"
proof -
  have n: "normalized (timedelta_of_seconds s)" for s
    by (simp add: normalized_def timedelta_of_seconds_def)
  have w: "whole_seconds (timedelta_of_seconds s) = s" for s
    by (simp add: whole_seconds_def timedelta_of_seconds_def)
  have g: "format_datetime (timedelta_of_seconds s) date = humanized_spec s date" if "0 \<le> s" for s
  proof -
    from that have "0 \<le> days (timedelta_of_seconds s)"
      by (simp add: timedelta_of_seconds_def pos_imp_zdiv_nonneg_iff)
    from format_datetime_humanized [OF n this] show ?thesis
      by (simp only: w)
  qed
  have f1: "format_width2 1 = '' 1''" by code_simp
  have f10: "format_width2 10 = ''10''" by code_simp
  have e1: "format_datetime (timedelta_of_seconds 59) date = ''just now''"
    by (simp add: g humanized_spec_def)
  have e2: "format_datetime (timedelta_of_seconds 60) date = '' 1 minute ago''"
    by (simp add: g humanized_spec_def f1)
  have e3: "format_datetime (timedelta_of_seconds (61 * 60)) date = '' 1 hour ago''"
    by (simp add: g humanized_spec_def f1)
  have e4: "format_datetime (timedelta_of_seconds (25 * 3600)) date = '' 1 day ago''"
    by (simp add: g humanized_spec_def f1)
  have e5: "format_datetime (timedelta_of_seconds (31 * 86400)) date = date"
    by (simp add: g humanized_spec_def)
  have e6: "format_datetime (timedelta_of_seconds 600) date = ''10 minutes ago''"
    by (simp add: g humanized_spec_def f10)
  from format_datetime_humanized e1 e2 e3 e4 e5 e6 show ?thesis by blast
qed

theorem format_datetime_humanized_spec_witness:
  "normalized \<lparr>days = 2, seconds = 5, microseconds = 7\<rparr>
   \<and> (0::int) \<le> days \<lparr>days = 2, seconds = 5, microseconds = 7\<rparr>
   \<and> format_datetime \<lparr>days = 2, seconds = 5, microseconds = 7\<rparr> ''2018-04-26'' = '' 2 days ago''"
proof -
  let ?d = "\<lparr>days = 2, seconds = 5, microseconds = 7\<rparr>"
  have n: "normalized ?d \<and> 0 \<le> days ?d" by (simp add: normalized_def)
  then have "format_datetime ?d ''2018-04-26'' = humanized_spec (whole_seconds ?d) ''2018-04-26''"
    using format_datetime_humanized_spec by blast
  moreover have "humanized_spec (whole_seconds ?d) ''2018-04-26'' = '' 2 days ago''"
    by code_simp
  ultimately show ?thesis using n by simp
qed

subsection \<open>The values of the examples\<close>

lemmas example_defs =
  example_controller_def example_seed_def example_snap_def example_events_def
  SnapListView_init_def make_main_screen_def get_preinstalled_snaps_def get_seed_yaml_def
  py_get_def py_iter_def set_state_def SnapCheckBox_state_change_def
  SnapInfoView_state_change_def state_change_checked_def SnapInfoView_init_def
  default_selection_def Let_def

lemma example_snap_name: "name (example_snap n) = n"
  by (simp add: example_snap_def)

lemma example_main_view_eq:
  "example_main_view =
     \<lparr>to_install = Map.empty,
      snap_boxes = [''A'' \<mapsto> \<lparr>box_snap = example_snap ''A'', box_state = False\<rparr>,
                    ''C'' \<mapsto> \<lparr>box_snap = example_snap ''C'', box_state = False\<rparr>],
      view_w = MainScreen [make_row (example_snap ''A''), make_row (example_snap ''C'')],
      main_screen = Some (MainScreen [make_row (example_snap ''A''), make_row (example_snap ''C'')]),
      effects = [SetHeader title]\<rparr>"
  by (simp add: example_main_view_def load_def load_callback_def show_main_screen_def emit_def
      example_defs)

subsection \<open>The seed manifest and the main screen\<close>

text \<open>
  Claim C4 describes what the handler of \<^verbatim>\<open>FileNotFoundError\<close> is there for, and
  the code misses it: the handler logs and falls through to \<^verbatim>\<open>with fp\<close>, where
  \<^verbatim>\<open>fp\<close> is unbound. With one source \<^verbatim>\<open>cp:///media/filesystem\<close>, no dry run and
  no seed file, \<^verbatim>\<open>get_seed_yaml\<close> raises \<^verbatim>\<open>UnboundLocalError\<close>; it is not a
  \<^verbatim>\<open>YAMLError\<close>, so \<^verbatim>\<open>get_preinstalled_snaps\<close> does not return the empty set but
  raises too, and so does \<^verbatim>\<open>load\<close> when the list of snaps arrives.
\<close>

theorem missing_seed_file_raises:
  "get_seed_yaml \<lparr>sources = [''cp:///media/filesystem''], dry_run = False,
                   files = Map.empty, yaml_load = parser\<rparr> = Inl UnboundLocalError
   \<and> get_preinstalled_snaps \<lparr>sources = [''cp:///media/filesystem''], dry_run = False,
                   files = Map.empty, yaml_load = parser\<rparr> = Inl UnboundLocalError
   \<and> load \<lparr>sources = [''cp:///media/filesystem''], dry_run = False,
                   files = Map.empty, yaml_load = parser\<rparr> (Some [example_snap ''A'']) SnapListView_init
       = Inl UnboundLocalError"
  by (simp add: get_seed_yaml_def get_preinstalled_snaps_def startswith_def path_join_def
      load_def load_callback_def make_main_screen_def)

lemma make_rows_eq:
  "make_rows pre xs boxes body =
     (boxes ++ map_of (rev (map (\<lambda>s. (name s, \<lparr>box_snap = s, box_state = False\<rparr>))
                         (filter (\<lambda>s. YStr (name s) \<notin> pre) xs))),
      body @ map make_row (filter (\<lambda>s. YStr (name s) \<notin> pre) xs))"
proof (induction xs arbitrary: boxes body)
  case Nil
  then show ?case by simp
next
  case (Cons s xs)
  show ?case
  proof (cases "YStr (name s) \<in> pre")
    case True
    then show ?thesis by (simp add: Cons.IH)
  next
    case False
    then show ?thesis
      by (simp add: Cons.IH map_add_def fun_eq_iff split: option.splits)
  qed
qed


lemma make_rows_boxes:
  assumes "make_rows pre xs boxes body = (boxes', body')"
    and "boxes' n = Some box"
    and "\<And>m b. boxes m = Some b \<Longrightarrow> name (box_snap b) = m \<and> \<not> box_state b"
  shows "name (box_snap box) = n \<and> \<not> box_state box"
  using assms
proof (induction xs arbitrary: boxes body)
  case Nil
  then show ?case by simp
next
  case (Cons s xs)
  show ?case
  proof (cases "YStr (name s) \<in> pre")
    case True
    with Cons.prems have "make_rows pre xs boxes body = (boxes', body')" by simp
    from Cons.IH [OF this Cons.prems(2) Cons.prems(3)] show ?thesis by simp
  next
    case False
    let ?b = "boxes(name s \<mapsto> \<lparr>box_snap = s, box_state = False\<rparr>)"
    from False Cons.prems
    have m: "make_rows pre xs ?b (body @ [make_row s]) = (boxes', body')" by simp
    have "name (box_snap b) = m \<and> \<not> box_state b" if "?b m = Some b" for m b
      using that Cons.prems(3) [of m b] by (auto split: if_splits)
    from Cons.IH [OF m Cons.prems(2) this] show ?thesis by simp
  qed
qed

lemma dom_make_rows:
  "dom (fst (make_rows pre xs boxes body)) =
     dom boxes \<union> name ` {s \<in> set xs. YStr (name s) \<notin> pre}"
  by (induction xs arbitrary: boxes body) auto

lemma add_names_entries:
  assumes "\<forall>kvs \<in> set entries. \<exists>n. n \<noteq> [] \<and> map_of kvs (YStr ''name'') = Some (YStr n)"
  shows "add_names (map YDict entries) names =
           Inr (names \<union> {YStr n | n. \<exists>kvs \<in> set entries. map_of kvs (YStr ''name'') = Some (YStr n)})"
  using assms
proof (induction entries arbitrary: names)
  case Nil
  then show ?case by simp
next
  case (Cons kvs entries)
  from Cons.prems obtain n where n: "n \<noteq> []" "map_of kvs (YStr ''name'') = Some (YStr n)"
    by auto
  from Cons.prems have rest: "\<forall>kvs \<in> set entries. \<exists>n. n \<noteq> [] \<and> map_of kvs (YStr ''name'') = Some (YStr n)"
    by simp
  have "add_names (map YDict (kvs # entries)) names = add_names (map YDict entries) (insert (YStr n) names)"
    using n by (simp add: py_get_def)
  also note Cons.IH [OF rest]
  finally show ?case using n by auto
qed

lemma load_callback_main_screen:
  assumes "snap_list \<noteq> []" and "get_preinstalled_snaps controller = Inr preinstalled"
  shows "\<exists>v'. load_callback controller has_spinner snap_list v = Inr v'
            \<and> view_w v' = MainScreen (map make_row (filter (\<lambda>s. YStr (name s) \<notin> preinstalled) snap_list))
            \<and> dom (snap_boxes v') = name ` {s \<in> set snap_list. YStr (name s) \<notin> preinstalled}"
proof -
  obtain boxes body where mr: "make_rows preinstalled snap_list Map.empty [] = (boxes, body)"
    by (cases "make_rows preinstalled snap_list Map.empty []")
  have body: "body = map make_row (filter (\<lambda>s. YStr (name s) \<notin> preinstalled) snap_list)"
    using mr by (simp add: make_rows_eq)
  have boxes: "dom boxes = name ` {s \<in> set snap_list. YStr (name s) \<notin> preinstalled}"
    using dom_make_rows [of preinstalled snap_list Map.empty "[]"] mr by simp
  show ?thesis
    using assms mr body boxes
    by (simp add: load_callback_def make_main_screen_def show_main_screen_def emit_def
        spinner_stop_def Let_def)
qed

lemma parse_failure_empty:
  assumes "get_seed_yaml controller = Inr content" "yaml_load controller content = Inl YAMLError"
  shows "get_preinstalled_snaps controller = Inr {}"
  using assms by (simp add: get_preinstalled_snaps_def)

lemma manifest_names:
  assumes "get_seed_yaml controller = Inr content"
    and "yaml_load controller content = Inr (YDict items)"
    and "map_of items (YStr ''snaps'') = Some (YList (map YDict entries))"
    and "\<forall>kvs \<in> set entries. \<exists>n. n \<noteq> [] \<and> map_of kvs (YStr ''name'') = Some (YStr n)"
  shows "get_preinstalled_snaps controller =
           Inr {YStr n | n. \<exists>kvs \<in> set entries. map_of kvs (YStr ''name'') = Some (YStr n)}"
  using assms(1-3) add_names_entries [OF assms(4), of "{}"]
  by (simp add: get_preinstalled_snaps_def py_get_def py_iter_def)

text \<open>
  Claim C7. The main screen built from a non-empty list of snaps shows a row for each
  snap whose name is not in the set \<^verbatim>\<open>get_preinstalled_snaps\<close> returns, in the
  order of the list, and \<^verbatim>\<open>snap_boxes\<close> has a box for exactly these names. For a
  manifest whose \<^verbatim>\<open>snaps\<close> are dicts with a non-empty string under \<^verbatim>\<open>name\<close>, the
  set holds these names. When the parser raises \<^verbatim>\<open>YAMLError\<close>, the set is empty and
  every snap has a row.
\<close>

theorem main_screen_excludes_preinstalled:
  assumes "snap_list \<noteq> []"
  shows "(get_preinstalled_snaps controller = Inr preinstalled \<longrightarrow>
            (\<exists>v'. load_callback controller has_spinner snap_list v = Inr v'
               \<and> view_w v' = MainScreen (map make_row
                     (filter (\<lambda>s. YStr (name s) \<notin> preinstalled) snap_list))
               \<and> dom (snap_boxes v') = name ` {s \<in> set snap_list. YStr (name s) \<notin> preinstalled}))
       \<and> (get_seed_yaml controller = Inr content
            \<and> yaml_load controller content = Inr (YDict items)
            \<and> map_of items (YStr ''snaps'') = Some (YList (map YDict entries))
            \<and> (\<forall>kvs \<in> set entries. \<exists>n. n \<noteq> [] \<and> map_of kvs (YStr ''name'') = Some (YStr n)) \<longrightarrow>
            get_preinstalled_snaps controller =
              Inr {YStr n | n. \<exists>kvs \<in> set entries. map_of kvs (YStr ''name'') = Some (YStr n)})
       \<and> (get_seed_yaml controller = Inr content
            \<and> yaml_load controller content = Inl YAMLError \<longrightarrow>
            get_preinstalled_snaps controller = Inr {}
            \<and> (\<exists>v'. load_callback controller has_spinner snap_list v = Inr v'
                  \<and> view_w v' = MainScreen (map make_row snap_list)))"
proof (intro conjI impI)
  assume "get_preinstalled_snaps controller = Inr preinstalled"
  from load_callback_main_screen [OF assms this]
  show "\<exists>v'. load_callback controller has_spinner snap_list v = Inr v'
               \<and> view_w v' = MainScreen (map make_row
                     (filter (\<lambda>s. YStr (name s) \<notin> preinstalled) snap_list))
               \<and> dom (snap_boxes v') = name ` {s \<in> set snap_list. YStr (name s) \<notin> preinstalled}" .
next
  assume "get_seed_yaml controller = Inr content
            \<and> yaml_load controller content = Inr (YDict items)
            \<and> map_of items (YStr ''snaps'') = Some (YList (map YDict entries))
            \<and> (\<forall>kvs \<in> set entries. \<exists>n. n \<noteq> [] \<and> map_of kvs (YStr ''name'') = Some (YStr n))"
  then show "get_preinstalled_snaps controller =
              Inr {YStr n | n. \<exists>kvs \<in> set entries. map_of kvs (YStr ''name'') = Some (YStr n)}"
    using manifest_names by blast
next
  assume a: "get_seed_yaml controller = Inr content \<and> yaml_load controller content = Inl YAMLError"
  then show e: "get_preinstalled_snaps controller = Inr {}"
    using parse_failure_empty by blast
  from load_callback_main_screen [OF assms e, of has_spinner v]
  show "\<exists>v'. load_callback controller has_spinner snap_list v = Inr v'
                  \<and> view_w v' = MainScreen (map make_row snap_list)"
    by auto
qed


theorem main_screen_excludes_preinstalled_witness:
  "[example_snap ''A'', example_snap ''B'', example_snap ''C''] \<noteq> []
   \<and> get_preinstalled_snaps example_controller = Inr {YStr ''B''}
   \<and> (\<exists>v'. load_callback example_controller False
               [example_snap ''A'', example_snap ''B'', example_snap ''C''] SnapListView_init = Inr v'
          \<and> view_w v' = MainScreen [make_row (example_snap ''A''), make_row (example_snap ''C'')]
          \<and> dom (snap_boxes v') = {''A'', ''C''})
   \<and> get_seed_yaml example_broken_controller = Inr dry_run_seed
   \<and> yaml_load example_broken_controller dry_run_seed = Inl YAMLError
   \<and> get_preinstalled_snaps example_broken_controller = Inr {}
   \<and> (\<exists>v'. load_callback example_broken_controller False
               [example_snap ''A'', example_snap ''B'', example_snap ''C''] SnapListView_init = Inr v'
          \<and> view_w v' = MainScreen [make_row (example_snap ''A''), make_row (example_snap ''B''),
                                    make_row (example_snap ''C'')])"
proof -
  let ?l = "[example_snap ''A'', example_snap ''B'', example_snap ''C'']"
  let ?kvs = "[(YStr ''name'', YStr ''B''), (YStr ''channel'', YStr ''stable''),
               (YStr ''file'', YStr ''B_1.snap'')]"
  have ne: "?l \<noteq> []" by simp
  have sy: "get_seed_yaml example_controller = Inr dry_run_seed"
    by (simp add: get_seed_yaml_def example_controller_def)
  have yl: "yaml_load example_controller dry_run_seed = Inr (YDict [(YStr ''snaps'', YList (map YDict [?kvs]))])"
    by (simp add: example_controller_def example_seed_def)
  have mo: "map_of [(YStr ''snaps'', YList (map YDict [?kvs]))] (YStr ''snaps'') = Some (YList (map YDict [?kvs]))"
    by simp
  have en: "\<forall>kvs \<in> set [?kvs]. \<exists>n. n \<noteq> [] \<and> map_of kvs (YStr ''name'') = Some (YStr n)"
    by simp
  from main_screen_excludes_preinstalled [OF ne, of example_controller _ _ _ dry_run_seed
      "[(YStr ''snaps'', YList (map YDict [?kvs]))]" "[?kvs]"] sy yl mo en
  have "get_preinstalled_snaps example_controller =
      Inr {YStr n | n. \<exists>kvs \<in> set [?kvs]. map_of kvs (YStr ''name'') = Some (YStr n)}"
    by blast
  also have "{YStr n | n. \<exists>kvs \<in> set [?kvs]. map_of kvs (YStr ''name'') = Some (YStr n)} = {YStr ''B''}"
    by auto
  finally have pre: "get_preinstalled_snaps example_controller = Inr {YStr ''B''}" .
  from main_screen_excludes_preinstalled [OF ne, of example_controller "{YStr ''B''}" False SnapListView_init] pre
  obtain v' where "load_callback example_controller False ?l SnapListView_init = Inr v'"
    and "view_w v' = MainScreen (map make_row (filter (\<lambda>s. YStr (name s) \<notin> {YStr ''B''}) ?l))"
    and "dom (snap_boxes v') = name ` {s \<in> set ?l. YStr (name s) \<notin> {YStr ''B''}}"
    by blast
  moreover have "filter (\<lambda>s. YStr (name s) \<notin> {YStr ''B''}) ?l = [example_snap ''A'', example_snap ''C'']"
    by (simp add: example_snap_name)
  moreover have "name ` {s \<in> set ?l. YStr (name s) \<notin> {YStr ''B''}} = {''A'', ''C''}"
  proof -
    have "name ` {s \<in> set ?l. YStr (name s) \<notin> {YStr ''B''}}
            = set (map name (filter (\<lambda>s. YStr (name s) \<notin> {YStr ''B''}) ?l))"
      by (simp only: set_map set_filter)
    also have "\<dots> = {''A'', ''C''}"
      by (simp add: example_snap_name)
    finally show ?thesis .
  qed
  ultimately have 1: "\<exists>v'. load_callback example_controller False ?l SnapListView_init = Inr v'
          \<and> view_w v' = MainScreen [make_row (example_snap ''A''), make_row (example_snap ''C'')]
          \<and> dom (snap_boxes v') = {''A'', ''C''}"
    by auto
  have bs: "get_seed_yaml example_broken_controller = Inr dry_run_seed"
    by (simp add: get_seed_yaml_def example_broken_controller_def)
  have by': "yaml_load example_broken_controller dry_run_seed = Inl YAMLError"
    by (simp add: example_broken_controller_def)
  from main_screen_excludes_preinstalled [OF ne, of example_broken_controller _ False
      SnapListView_init dry_run_seed] bs by'
  have 2: "get_preinstalled_snaps example_broken_controller = Inr {}"
    and 3: "\<exists>v'. load_callback example_broken_controller False ?l SnapListView_init = Inr v'
          \<and> view_w v' = MainScreen (map make_row ?l)"
    by blast+
  from ne pre 1 bs by' 2 3 show ?thesis by simp
qed

subsection \<open>The selection and the check boxes\<close>

lemma set_state_inv:
  assumes "selection_inv v" "set_state n st v = Inr v'"
  shows "selection_inv v'"
proof (cases "snap_boxes v n")
  case None
  with assms(2) show ?thesis by (simp add: set_state_def)
next
  case (Some box)
  from assms(1) Some have nm: "name (box_snap box) = n"
    and st: "(to_install v n \<noteq> None) = box_state box"
    unfolding selection_inv_def by (auto dest: spec [of _ n])
  show ?thesis
  proof (cases "box_state box = st")
    case True
    with assms Some show ?thesis by (simp add: set_state_def)
  next
    case False
    with assms(2) Some nm
    have v': "v' = (SnapCheckBox_state_change (box_snap box) st v)
                \<lparr>snap_boxes := (snap_boxes v)(n \<mapsto> box\<lparr>box_state := st\<rparr>)\<rparr>"
      by (auto simp: set_state_def Let_def SnapCheckBox_state_change_def)
    show ?thesis
      unfolding selection_inv_def
    proof
      fix m
      show "case snap_boxes v' m of None \<Rightarrow> to_install v' m = None
            | Some b \<Rightarrow> name (box_snap b) = m \<and> (to_install v' m \<noteq> None) = box_state b"
      proof (cases "m = n")
        case True
        then show ?thesis
          using nm by (simp add: v' SnapCheckBox_state_change_def)
      next
        case False
        with assms(1) show ?thesis
          unfolding selection_inv_def
          using nm by (auto simp: v' SnapCheckBox_state_change_def split: option.splits dest: spec [of _ m])
      qed
    qed
  qed
qed

lemma set_state_True:
  assumes "snap_boxes v n = Some box"
  shows "\<exists>v' box'. set_state n True v = Inr v' \<and> snap_boxes v' n = Some box' \<and> box_state box'
           \<and> box_snap box' = box_snap box"
  using assms by (auto simp: set_state_def Let_def SnapCheckBox_state_change_def)

lemma state_change_inv:
  assumes "selection_inv v" "SnapInfoView_state_change siv st selection v = Inr v'"
  shows "selection_inv v'"
proof (cases st)
  case False
  with assms show ?thesis by (simp add: SnapInfoView_state_change_def)
next
  case True
  let ?n = "name (siv_snap siv)"
  from True assms(2) obtain v1 where v1: "set_state ?n True v = Inr v1"
    and v': "v' = v1\<lparr>to_install := (to_install v1)(?n \<mapsto> selection)\<rparr>"
    by (auto simp: SnapInfoView_state_change_def state_change_checked_def split: sum.splits)
  from set_state_inv [OF assms(1) v1] have inv1: "selection_inv v1" .
  from v1 obtain box where box: "snap_boxes v ?n = Some box"
    by (auto simp: set_state_def split: option.splits)
  from set_state_True [OF box] v1 obtain box' where b': "snap_boxes v1 ?n = Some box'" "box_state box'"
    by auto
  show ?thesis
    unfolding selection_inv_def
  proof
    fix m
    from inv1 have i: "case snap_boxes v1 m of None \<Rightarrow> to_install v1 m = None
        | Some b \<Rightarrow> name (box_snap b) = m \<and> (to_install v1 m \<noteq> None) = box_state b"
      unfolding selection_inv_def by blast
    show "case snap_boxes v' m of None \<Rightarrow> to_install v' m = None
          | Some b \<Rightarrow> name (box_snap b) = m \<and> (to_install v' m \<noteq> None) = box_state b"
    proof (cases "m = ?n")
      case True
      with i b' show ?thesis by (simp add: v')
    next
      case False
      with i show ?thesis by (auto simp: v' split: option.splits)
    qed
  qed
qed

lemma ui_step_inv:
  assumes "selection_inv v" "ui_step e v = Inr v'"
  shows "selection_inv v'"
proof (cases e)
  case (ToggleCheckBox n)
  with assms show ?thesis
    by (auto split: option.splits intro: set_state_inv)
next
  case (RadioChange siv st selection)
  with assms show ?thesis
    by (auto intro: state_change_inv)
qed

lemma ui_run_inv:
  assumes "selection_inv v" "ui_run es v = Inr v'"
  shows "selection_inv v'"
  using assms
proof (induction es arbitrary: v)
  case Nil
  then show ?case by simp
next
  case (Cons e es)
  from Cons.prems(2) obtain v1 where s: "ui_step e v = Inr v1" and r: "ui_run es v1 = Inr v'"
    by (auto split: sum.splits)
  from Cons.IH [OF ui_step_inv [OF Cons.prems(1) s] r] show ?case .
qed

lemma make_main_screen_inv:
  assumes "make_main_screen controller snap_list v = Inr v'" "to_install v = Map.empty"
  shows "selection_inv v'"
proof -
  from assms(1) obtain pre boxes body where
    mr: "make_rows pre snap_list Map.empty [] = (boxes, body)"
    and v': "v' = v\<lparr>snap_boxes := boxes, main_screen := Some (MainScreen body)\<rparr>"
    by (auto simp: make_main_screen_def split: sum.splits prod.splits)
  have "name (box_snap b) = n \<and> \<not> box_state b" if "boxes n = Some b" for n b
    using make_rows_boxes [OF mr that] by simp
  then show ?thesis
    unfolding selection_inv_def using assms(2)
    by (auto simp: v' split: option.splits)
qed

lemma radio_chosen:
  assumes "snap_boxes v (name (siv_snap siv)) = Some box"
  shows "\<exists>v' box'. SnapInfoView_state_change siv True selection v = Inr v'
           \<and> to_install v' (name (siv_snap siv)) = Some selection
           \<and> snap_boxes v' (name (siv_snap siv)) = Some box' \<and> box_state box'"
  using set_state_True [OF assms]
  by (auto simp: SnapInfoView_state_change_def state_change_checked_def)


lemma selection_inv_dom:
  assumes "selection_inv v"
  shows "(n \<in> dom (to_install v)) = (\<exists>box. snap_boxes v n = Some box \<and> box_state box)"
  using assms unfolding selection_inv_def
  by (auto split: option.splits dest: spec [of _ n])

text \<open>
  Claim C6. Starting from a view in which a snap has an entry in \<^verbatim>\<open>to_install\<close>
  exactly when its check box is checked, this is so again after every sequence of
  events of the user (toggling the check box of a row, a radio button of a detail view
  changing state); the view that \<^verbatim>\<open>make_main_screen\<close> builds from the initial
  view starts so. A radio button that becomes chosen writes its selection under the
  name of the snap and leaves the check box of the row checked. The boxes are filed
  under the names of their snaps, which the model takes to be distinct.
\<close>

theorem selection_matches_checkboxes:
  "(selection_inv v \<and> ui_run events v = Inr v' \<longrightarrow>
      selection_inv v'
      \<and> (\<forall>n. (n \<in> dom (to_install v')) = (\<exists>box. snap_boxes v' n = Some box \<and> box_state box)))
   \<and> (make_main_screen controller snap_list SnapListView_init = Inr v0 \<longrightarrow> selection_inv v0)
   \<and> (snap_boxes v (name (siv_snap siv)) = Some box \<longrightarrow>
        (\<exists>v'' box'. ui_step (RadioChange siv True selection) v = Inr v''
           \<and> to_install v'' (name (siv_snap siv)) = Some selection
           \<and> snap_boxes v'' (name (siv_snap siv)) = Some box' \<and> box_state box'))"
proof (intro conjI impI allI)
  assume a: "selection_inv v \<and> ui_run events v = Inr v'"
  then show i: "selection_inv v'" using ui_run_inv by blast
  fix n
  show "(n \<in> dom (to_install v')) = (\<exists>box. snap_boxes v' n = Some box \<and> box_state box)"
    by (rule selection_inv_dom [OF i])
next
  assume "make_main_screen controller snap_list SnapListView_init = Inr v0"
  then show "selection_inv v0"
    by (rule make_main_screen_inv) (simp add: SnapListView_init_def)
next
  assume "snap_boxes v (name (siv_snap siv)) = Some box"
  from radio_chosen [OF this]
  show "\<exists>v'' box'. ui_step (RadioChange siv True selection) v = Inr v''
           \<and> to_install v'' (name (siv_snap siv)) = Some selection
           \<and> snap_boxes v'' (name (siv_snap siv)) = Some box' \<and> box_state box'"
    by simp
qed

theorem selection_matches_checkboxes_witness:
  "(\<exists>v0 v'. make_main_screen example_controller
              [example_snap ''A'', example_snap ''B'', example_snap ''C''] SnapListView_init = Inr v0
     \<and> ui_run example_events v0 = Inr v'
     \<and> selection_inv v0 \<and> selection_inv v'
     \<and> to_install v' ''A'' = None
     \<and> to_install v' ''C'' = Some \<lparr>channel = ''beta'', is_classic = False\<rparr>
     \<and> dom (to_install v') = {''C''})
   \<and> snap_boxes example_main_view ''C'' = Some \<lparr>box_snap = example_snap ''C'', box_state = False\<rparr>
   \<and> (\<exists>v'' box'. ui_step (RadioChange (SnapInfoView_init (example_snap ''C'') None) True
                          \<lparr>channel = ''beta'', is_classic = False\<rparr>) example_main_view = Inr v''
          \<and> to_install v'' ''C'' = Some \<lparr>channel = ''beta'', is_classic = False\<rparr>
          \<and> snap_boxes v'' ''C'' = Some box' \<and> box_state box')"
proof -
  let ?siv = "SnapInfoView_init (example_snap ''C'') None"
  obtain v0 where m: "make_main_screen example_controller
      [example_snap ''A'', example_snap ''B'', example_snap ''C''] SnapListView_init = Inr v0"
    by (simp add: example_defs)
  from m have v0: "v0 = \<lparr>to_install = Map.empty,
       snap_boxes = [''A'' \<mapsto> \<lparr>box_snap = example_snap ''A'', box_state = False\<rparr>,
                     ''C'' \<mapsto> \<lparr>box_snap = example_snap ''C'', box_state = False\<rparr>],
       view_w = Blank,
       main_screen = Some (MainScreen [make_row (example_snap ''A''), make_row (example_snap ''C'')]),
       effects = []\<rparr>"
    by (simp add: example_defs)
  have run: "\<exists>v'. ui_run example_events v0 = Inr v' \<and> to_install v' ''A'' = None
      \<and> to_install v' ''C'' = Some \<lparr>channel = ''beta'', is_classic = False\<rparr>
      \<and> dom (to_install v') = {''C''}"
    unfolding v0 by (simp add: example_defs)
  then obtain v' where r: "ui_run example_events v0 = Inr v'" "to_install v' ''A'' = None"
      "to_install v' ''C'' = Some \<lparr>channel = ''beta'', is_classic = False\<rparr>"
      "dom (to_install v') = {''C''}"
    by blast
  from selection_matches_checkboxes [of v0 example_events v' example_controller
      "[example_snap ''A'', example_snap ''B'', example_snap ''C'']" v0] m r(1)
  have "selection_inv v0" "selection_inv v'" by blast+
  with m r have 1: "\<exists>v0 v'. make_main_screen example_controller
              [example_snap ''A'', example_snap ''B'', example_snap ''C''] SnapListView_init = Inr v0
     \<and> ui_run example_events v0 = Inr v'
     \<and> selection_inv v0 \<and> selection_inv v'
     \<and> to_install v' ''A'' = None
     \<and> to_install v' ''C'' = Some \<lparr>channel = ''beta'', is_classic = False\<rparr>
     \<and> dom (to_install v') = {''C''}"
    by blast
  have nm: "name (siv_snap ?siv) = ''C''"
    by (simp add: SnapInfoView_init_def example_snap_name)
  have box: "snap_boxes example_main_view ''C'' = Some \<lparr>box_snap = example_snap ''C'', box_state = False\<rparr>"
    by (simp add: example_main_view_eq)
  from selection_matches_checkboxes [where v = example_main_view and siv = ?siv
      and box = "\<lparr>box_snap = example_snap ''C'', box_state = False\<rparr>"
      and selection = "\<lparr>channel = ''beta'', is_classic = False\<rparr>"] box
  have 2: "\<exists>v'' box'. ui_step (RadioChange ?siv True
                          \<lparr>channel = ''beta'', is_classic = False\<rparr>) example_main_view = Inr v''
          \<and> to_install v'' ''C'' = Some \<lparr>channel = ''beta'', is_classic = False\<rparr>
          \<and> snap_boxes v'' ''C'' = Some box' \<and> box_state box'"
    unfolding nm by blast
  from 1 box 2 show ?thesis by blast
qed

text \<open>
  Claim C10. When the check box of the snap is unchecked and a radio button of its
  detail view becomes chosen, \<^verbatim>\<open>set_state(True)\<close> first writes the default selection
  of channel \<open>''stable''\<close> through \<^verbatim>\<open>SnapCheckBox.state_change\<close>, and the next
  statement overwrites it: afterwards the entry is the selection of the chosen button.
\<close>

theorem radio_choice_overwrites_default:
  assumes "selection_inv v" "snap_boxes v (name (siv_snap siv)) = Some box" "\<not> box_state box"
  shows "\<exists>v1 v'. state_change_checked siv v = Inr v1
           \<and> to_install v1 (name (siv_snap siv)) = Some (default_selection (box_snap box))
           \<and> channel (default_selection (box_snap box)) = ''stable''
           \<and> SnapInfoView_state_change siv True selection v = Inr v'
           \<and> to_install v' = (to_install v1)(name (siv_snap siv) \<mapsto> selection)
           \<and> to_install v' (name (siv_snap siv)) = Some selection
           \<and> (selection \<noteq> default_selection (box_snap box) \<longrightarrow>
                to_install v' (name (siv_snap siv)) \<noteq> Some (default_selection (box_snap box)))"
proof -
  from assms(1,2) have nm: "name (box_snap box) = name (siv_snap siv)"
    unfolding selection_inv_def by (auto dest: spec [of _ "name (siv_snap siv)"])
  show ?thesis
    using assms(2,3) nm
    by (simp add: state_change_checked_def SnapInfoView_state_change_def set_state_def
        SnapCheckBox_state_change_def default_selection_def Let_def)
qed


theorem radio_choice_overwrites_default_witness:
  "\<exists>v0 box. make_main_screen example_controller
              [example_snap ''A'', example_snap ''B'', example_snap ''C''] SnapListView_init = Inr v0
     \<and> selection_inv v0 \<and> snap_boxes v0 ''C'' = Some box \<and> \<not> box_state box
     \<and> (\<exists>v1 v'. state_change_checked (SnapInfoView_init (example_snap ''C'') None) v0 = Inr v1
           \<and> to_install v1 ''C'' = Some \<lparr>channel = ''stable'', is_classic = False\<rparr>
           \<and> SnapInfoView_state_change (SnapInfoView_init (example_snap ''C'') None) True
                 \<lparr>channel = ''beta'', is_classic = False\<rparr> v0 = Inr v'
           \<and> to_install v' ''C'' = Some \<lparr>channel = ''beta'', is_classic = False\<rparr>)"
proof -
  let ?siv = "SnapInfoView_init (example_snap ''C'') None"
  let ?box = "\<lparr>box_snap = example_snap ''C'', box_state = False\<rparr>"
  obtain v0 where m: "make_main_screen example_controller
      [example_snap ''A'', example_snap ''B'', example_snap ''C''] SnapListView_init = Inr v0"
    by (simp add: example_defs)
  from m have inv: "selection_inv v0"
    by (rule make_main_screen_inv) (simp add: SnapListView_init_def)
  have nm: "name (siv_snap ?siv) = ''C''"
    by (simp add: SnapInfoView_init_def example_snap_def)
  from m have box: "snap_boxes v0 (name (siv_snap ?siv)) = Some ?box"
    unfolding nm by (auto simp: example_defs)
  have st: "\<not> box_state ?box" by simp
  have d: "default_selection (box_snap ?box) = \<lparr>channel = ''stable'', is_classic = False\<rparr>"
    by (simp add: default_selection_def example_snap_def)
  from radio_choice_overwrites_default [OF inv box st, of "\<lparr>channel = ''beta'', is_classic = False\<rparr>"]
  obtain v1 v' where "state_change_checked ?siv v0 = Inr v1"
    "to_install v1 ''C'' = Some \<lparr>channel = ''stable'', is_classic = False\<rparr>"
    "SnapInfoView_state_change ?siv True \<lparr>channel = ''beta'', is_classic = False\<rparr> v0 = Inr v'"
    "to_install v' ''C'' = Some \<lparr>channel = ''beta'', is_classic = False\<rparr>"
    unfolding nm d by blast
  with m inv box st show ?thesis unfolding nm by blast
qed

subsection \<open>Fetching: spinners and dialogs\<close>

lemma FetchingInfo_close_closed: "fi_closed fi \<Longrightarrow> FetchingInfo_close fi u = Inr (fi, u)"
  by (simp add: FetchingInfo_close_def)

lemma FetchingFailed_close_closed: "ff_closed ff \<Longrightarrow> FetchingFailed_close ff u = Inr (ff, u)"
  by (simp add: FetchingFailed_close_def)

lemma FetchingInfo_close_open:
  assumes "\<not> fi_closed fi" "view_w v = Overlay d bottom"
  shows "FetchingInfo_close fi v =
           Inr (fi\<lparr>fi_closed := True\<rparr>,
                v\<lparr>view_w := bottom,
                  effects := effects v @ [SpinnerStop (InfoSpinner (name (fi_snap fi))), RemoveOverlay]\<rparr>)"
  using assms
  by (simp add: FetchingInfo_close_def remove_overlay_def spinner_stop_def emit_def)

lemma FetchingFailed_close_open:
  assumes "\<not> ff_closed ff" "view_w v = Overlay d bottom"
  shows "FetchingFailed_close ff v =
           Inr (ff\<lparr>ff_closed := True\<rparr>,
                v\<lparr>view_w := bottom, effects := effects v @ [RemoveOverlay]\<rparr>)"
  using assms
  by (simp add: FetchingFailed_close_def remove_overlay_def emit_def)

lemma FetchingInfo_close_result:
  assumes "FetchingInfo_close fi v = Inr (fi', v')"
  shows "fi_closed fi'"
  using assms
  by (auto simp: FetchingInfo_close_def split: if_splits sum.splits)

lemma FetchingFailed_close_result:
  assumes "FetchingFailed_close ff v = Inr (ff', v')"
  shows "ff_closed ff'"
  using assms
  by (auto simp: FetchingFailed_close_def split: if_splits sum.splits)

text \<open>
  Claim C9. The first \<^verbatim>\<open>close\<close> of a \<^verbatim>\<open>FetchingInfo\<close> that lies over the screen
  stops the spinner once and takes the dialog off once; the first \<^verbatim>\<open>close\<close> of a
  \<^verbatim>\<open>FetchingFailed\<close> takes the dialog off once. A dialog that \<^verbatim>\<open>close\<close> has
  returned from is closed, and every later \<^verbatim>\<open>close\<close> of it, in whatever state of
  the view, changes nothing.
\<close>

theorem close_idempotent:
  "(\<not> fi_closed fi \<and> view_w v = Overlay d bottom \<longrightarrow>
      FetchingInfo_close fi v =
        Inr (fi\<lparr>fi_closed := True\<rparr>,
             v\<lparr>view_w := bottom,
               effects := effects v @ [SpinnerStop (InfoSpinner (name (fi_snap fi))), RemoveOverlay]\<rparr>))
   \<and> (FetchingInfo_close fi v = Inr (fi', v') \<longrightarrow>
        fi_closed fi' \<and> (\<forall>u. FetchingInfo_close fi' u = Inr (fi', u)))
   \<and> (\<not> ff_closed ff \<and> view_w v = Overlay d bottom \<longrightarrow>
        FetchingFailed_close ff v =
          Inr (ff\<lparr>ff_closed := True\<rparr>,
               v\<lparr>view_w := bottom, effects := effects v @ [RemoveOverlay]\<rparr>))
   \<and> (FetchingFailed_close ff v = Inr (ff', v') \<longrightarrow>
        ff_closed ff' \<and> (\<forall>u. FetchingFailed_close ff' u = Inr (ff', u)))"
  using FetchingInfo_close_open [of fi v d bottom] FetchingFailed_close_open [of ff v d bottom]
    FetchingInfo_close_result [of fi v fi' v'] FetchingFailed_close_result [of ff v ff' v']
    FetchingInfo_close_closed [of fi'] FetchingFailed_close_closed [of ff']
  by blast



theorem close_idempotent_witness:
  "\<not> fi_closed example_fetching
   \<and> view_w example_fetching_view = Overlay (FetchingInfoDialog ''A'') (view_w example_main_view)
   \<and> FetchingInfo_close example_fetching example_fetching_view
       = Inr (example_fetching\<lparr>fi_closed := True\<rparr>, example_cancelled_view)
   \<and> FetchingInfo_close (example_fetching\<lparr>fi_closed := True\<rparr>) example_cancelled_view
       = Inr (example_fetching\<lparr>fi_closed := True\<rparr>, example_cancelled_view)
   \<and> \<not> ff_closed (FetchingFailed_init (example_snap ''A''))
   \<and> view_w (show_overlay (FetchingFailedDialog ''A'') example_main_view)
       = Overlay (FetchingFailedDialog ''A'') (view_w example_main_view)
   \<and> (\<exists>ff' v'. FetchingFailed_close (FetchingFailed_init (example_snap ''A''))
                   (show_overlay (FetchingFailedDialog ''A'') example_main_view) = Inr (ff', v')
          \<and> ff_closed ff' \<and> view_w v' = view_w example_main_view
          \<and> effects v' = effects example_main_view
                          @ [ShowOverlay (FetchingFailedDialog ''A''), RemoveOverlay]
          \<and> FetchingFailed_close ff' v' = Inr (ff', v'))"
proof -
  let ?ff = "FetchingFailed_init (example_snap ''A'')"
  let ?fv = "show_overlay (FetchingFailedDialog ''A'') example_main_view"
  have o: "\<not> fi_closed example_fetching
      \<and> view_w example_fetching_view = Overlay (FetchingInfoDialog ''A'') (view_w example_main_view)"
    by (simp add: example_fetching_def example_fetching_view_def)
  with close_idempotent [of example_fetching example_fetching_view "FetchingInfoDialog ''A''"
      "view_w example_main_view"]
  have c: "FetchingInfo_close example_fetching example_fetching_view
       = Inr (example_fetching\<lparr>fi_closed := True\<rparr>, example_cancelled_view)"
    by (simp add: example_fetching_def example_fetching_view_def example_cancelled_view_def
        example_snap_name)
  with close_idempotent [of example_fetching example_fetching_view _ _
      "example_fetching\<lparr>fi_closed := True\<rparr>" example_cancelled_view]
  have c2: "FetchingInfo_close (example_fetching\<lparr>fi_closed := True\<rparr>) example_cancelled_view
       = Inr (example_fetching\<lparr>fi_closed := True\<rparr>, example_cancelled_view)"
    by blast
  have fo: "\<not> ff_closed ?ff \<and> view_w ?fv = Overlay (FetchingFailedDialog ''A'') (view_w example_main_view)"
    by (simp add: FetchingFailed_init_def show_overlay_def emit_def)
  with close_idempotent [where v = ?fv and d = "FetchingFailedDialog ''A''"
      and bottom = "view_w example_main_view" and ff = ?ff]
  have f1: "FetchingFailed_close ?ff ?fv =
          Inr (?ff\<lparr>ff_closed := True\<rparr>,
               ?fv\<lparr>view_w := view_w example_main_view, effects := effects ?fv @ [RemoveOverlay]\<rparr>)"
    by blast
  with close_idempotent [where v = ?fv and ff = ?ff and ff' = "?ff\<lparr>ff_closed := True\<rparr>"
      and v' = "?fv\<lparr>view_w := view_w example_main_view, effects := effects ?fv @ [RemoveOverlay]\<rparr>"]
  have f2: "FetchingFailed_close (?ff\<lparr>ff_closed := True\<rparr>)
          (?fv\<lparr>view_w := view_w example_main_view, effects := effects ?fv @ [RemoveOverlay]\<rparr>)
       = Inr (?ff\<lparr>ff_closed := True\<rparr>,
              ?fv\<lparr>view_w := view_w example_main_view, effects := effects ?fv @ [RemoveOverlay]\<rparr>)"
    by blast
  have e: "effects (?fv\<lparr>view_w := view_w example_main_view, effects := effects ?fv @ [RemoveOverlay]\<rparr>)
      = effects example_main_view @ [ShowOverlay (FetchingFailedDialog ''A''), RemoveOverlay]"
    by (simp add: show_overlay_def emit_def)
  from f1 f2 e have 3: "\<exists>ff' v'. FetchingFailed_close ?ff ?fv = Inr (ff', v')
          \<and> ff_closed ff' \<and> view_w v' = view_w example_main_view
          \<and> effects v' = effects example_main_view
                          @ [ShowOverlay (FetchingFailedDialog ''A''), RemoveOverlay]
          \<and> FetchingFailed_close ff' v' = Inr (ff', v')"
    by simp
  from o c c2 fo 3 show ?thesis by blast
qed

lemma close_fetching_cases:
  assumes "close_fetching fi v = Inr (fi', v1)"
  shows "to_install v1 = to_install v \<and> snap_boxes v1 = snap_boxes v
         \<and> (fi = None \<longrightarrow> fi' = None \<and> v1 = v)"
  using assms
  by (auto simp: close_fetching_def FetchingInfo_close_def remove_overlay_def spinner_stop_def
      emit_def split: option.splits sum.splits if_splits widget.splits)

text \<open>
  Claim C8. Let the callback of \<^verbatim>\<open>load_info\<close> run, its statement
  \<^verbatim>\<open>if fi is not None: fi.close()\<close> leaving the view \<open>v1\<close>. With no channels, a
  \<^verbatim>\<open>FetchingFailed\<close> is laid over the screen of \<open>v1\<close>, the detail screen is not
  shown, and \<^verbatim>\<open>Try again\<close> takes the dialog off and loads the info of the same snap
  again. With channels, the screen becomes the detail view of the snap, with the
  channel of its entry in \<^verbatim>\<open>to_install\<close> as the current one.
\<close>

theorem info_fetch_completion:
  assumes "close_fetching fi v = Inr (fi', v1)"
  shows "(length (channels snap) = 0 \<longrightarrow>
            (\<exists>ff v'. load_info_callback snap fi v = Inr (fi', Some ff, v')
               \<and> ff_snap ff = snap \<and> \<not> ff_closed ff
               \<and> view_w v' = Overlay (FetchingFailedDialog (name snap)) (view_w v1)
               \<and> (\<forall>siv. view_w v' \<noteq> DetailScreen siv)
               \<and> effects v' = effects v1 @ [ShowOverlay (FetchingFailedDialog (name snap))]
               \<and> (\<forall>completed. FetchingFailed_load ff completed v' =
                     load_info snap completed
                       (v'\<lparr>view_w := view_w v1, effects := effects v' @ [RemoveOverlay]\<rparr>))))
       \<and> (length (channels snap) \<noteq> 0 \<longrightarrow>
            (\<exists>v'. load_info_callback snap fi v = Inr (fi', None, v')
               \<and> view_w v' = DetailScreen
                    \<lparr>siv_snap = snap,
                     siv_cur_channel = map_option channel (to_install v (name snap))\<rparr>
               \<and> effects v' = effects v1 @ [SetHeader (name snap)]))"
proof (intro conjI impI)
  assume "length (channels snap) = 0"
  then show "\<exists>ff v'. load_info_callback snap fi v = Inr (fi', Some ff, v')
               \<and> ff_snap ff = snap \<and> \<not> ff_closed ff
               \<and> view_w v' = Overlay (FetchingFailedDialog (name snap)) (view_w v1)
               \<and> (\<forall>siv. view_w v' \<noteq> DetailScreen siv)
               \<and> effects v' = effects v1 @ [ShowOverlay (FetchingFailedDialog (name snap))]
               \<and> (\<forall>completed. FetchingFailed_load ff completed v' =
                     load_info snap completed
                       (v'\<lparr>view_w := view_w v1, effects := effects v' @ [RemoveOverlay]\<rparr>))"
    using assms
    by (simp add: load_info_callback_def FetchingFailed_init_def show_overlay_def emit_def
        FetchingFailed_load_def FetchingFailed_close_def remove_overlay_def)
next
  assume "length (channels snap) \<noteq> 0"
  moreover have "to_install v1 = to_install v"
    using close_fetching_cases [OF assms] by simp
  ultimately show "\<exists>v'. load_info_callback snap fi v = Inr (fi', None, v')
               \<and> view_w v' = DetailScreen
                    \<lparr>siv_snap = snap,
                     siv_cur_channel = map_option channel (to_install v (name snap))\<rparr>
               \<and> effects v' = effects v1 @ [SetHeader (name snap)]"
    using assms
    by (auto simp: load_info_callback_def show_screen_def emit_def SnapInfoView_init_def Let_def
        split: option.splits)
qed


lemma example_close_fetching:
  "close_fetching (Some example_fetching) example_fetching_view
     = Inr (Some (example_fetching\<lparr>fi_closed := True\<rparr>), example_cancelled_view)"
  using FetchingInfo_close_open [of example_fetching example_fetching_view
      "FetchingInfoDialog ''A''" "view_w example_main_view"]
  by (simp add: close_fetching_def example_fetching_def example_fetching_view_def
      example_cancelled_view_def example_snap_name)

theorem info_fetch_completion_witness:
  "close_fetching (Some example_fetching) example_fetching_view
     = Inr (Some (example_fetching\<lparr>fi_closed := True\<rparr>), example_cancelled_view)
   \<and> length (channels (example_snap ''A'')) = 0
   \<and> (\<exists>ff v'. load_info_callback (example_snap ''A'') (Some example_fetching) example_fetching_view
                  = Inr (Some (example_fetching\<lparr>fi_closed := True\<rparr>), Some ff, v')
          \<and> view_w v' = Overlay (FetchingFailedDialog ''A'')
                (MainScreen [make_row (example_snap ''A''), make_row (example_snap ''C'')]))
   \<and> length (channels ((example_snap ''A'')\<lparr>channels := [example_channel]\<rparr>)) \<noteq> 0
   \<and> (\<exists>v'. load_info_callback ((example_snap ''A'')\<lparr>channels := [example_channel]\<rparr>)
                 (Some example_fetching) example_fetching_view
                  = Inr (Some (example_fetching\<lparr>fi_closed := True\<rparr>), None, v')
          \<and> view_w v' = DetailScreen
                \<lparr>siv_snap = (example_snap ''A'')\<lparr>channels := [example_channel]\<rparr>,
                 siv_cur_channel = None\<rparr>)"
proof -
  note c = example_close_fetching
  have e: "length (channels (example_snap ''A'')) = 0"
    by (simp add: example_snap_def)
  have w: "view_w example_cancelled_view
             = MainScreen [make_row (example_snap ''A''), make_row (example_snap ''C'')]"
    by (simp add: example_cancelled_view_def example_main_view_eq)
  have t: "to_install example_fetching_view (name ((example_snap ''A'')\<lparr>channels := [example_channel]\<rparr>)) = None"
    by (simp add: example_fetching_view_def example_main_view_eq)
  from info_fetch_completion [OF c, of "example_snap ''A''"] e
  have 1: "\<exists>ff v'. load_info_callback (example_snap ''A'') (Some example_fetching) example_fetching_view
                  = Inr (Some (example_fetching\<lparr>fi_closed := True\<rparr>), Some ff, v')
          \<and> view_w v' = Overlay (FetchingFailedDialog ''A'')
                (MainScreen [make_row (example_snap ''A''), make_row (example_snap ''C'')])"
    unfolding w example_snap_name by blast
  from info_fetch_completion [OF c, of "(example_snap ''A'')\<lparr>channels := [example_channel]\<rparr>"]
  have 2: "\<exists>v'. load_info_callback ((example_snap ''A'')\<lparr>channels := [example_channel]\<rparr>)
                 (Some example_fetching) example_fetching_view
                  = Inr (Some (example_fetching\<lparr>fi_closed := True\<rparr>), None, v')
          \<and> view_w v' = DetailScreen
                \<lparr>siv_snap = (example_snap ''A'')\<lparr>channels := [example_channel]\<rparr>,
                 siv_cur_channel = None\<rparr>"
    unfolding t by auto
  from c e 1 2 show ?thesis by simp
qed




















end
